theory Spec2Isabelle
  imports Complex_Main "HOL-Library.Word"
begin

section \<open>JavaScript strings\<close>

text \<open>
  A JavaScript string is a sequence of UTF-16 code units; \<open>length\<close>, \<open>substring\<close>,
  \<open>split\<close> and the regular expressions of the handler all work on code units. A string
  is therefore a list of 16-bit words, and \<open>js\<close> embeds an ASCII literal.
\<close>

type_synonym jsstring = "16 word list"

definition js :: "string \<Rightarrow> jsstring" where
  "js s = map of_char s"

definition space :: "16 word" where
  "space = 0x20"

text \<open>
  \<open>s.split(sep)\<close> for a one-character separator: the pieces between the separators,
  empty pieces included; the result always has at least one piece (the second branch of
  the \<open>case\<close> is never taken).
\<close>

fun split_on :: "16 word \<Rightarrow> jsstring \<Rightarrow> jsstring list" where
  "split_on sep [] = [[]]"
| "split_on sep (c # cs) =
     (if c = sep then [] # split_on sep cs
      else (case split_on sep cs of w # ws \<Rightarrow> (c # w) # ws | [] \<Rightarrow> [[c]]))"

text \<open>\<open>xs.join(sep)\<close> on an array of strings.\<close>

fun join :: "jsstring \<Rightarrow> jsstring list \<Rightarrow> jsstring" where
  "join sep [] = []"
| "join sep [x] = x"
| "join sep (x # y # ys) = x @ sep @ join sep (y # ys)"

section \<open>Title truncation, font tiers and the word wrap\<close>

text \<open>
  \<^verbatim>\<open>const cleanTitle = title.length > 150 ? title.substring(0, 150) + '...' : title\<close>
\<close>

definition cleanTitle :: "jsstring \<Rightarrow> jsstring" where
  "cleanTitle title =
     (if length title > 150 then take 150 title @ js ''...'' else title)"

record tier =
  titleFontSize :: nat
  lineHeight :: nat
  maxCharsPerLine :: nat

text \<open>The three tiers, chosen by the length of the cleaned title.\<close>

definition titleTier :: "jsstring \<Rightarrow> tier" where
  "titleTier ct =
     (if length ct > 80 then \<lparr>titleFontSize = 36, lineHeight = 44, maxCharsPerLine = 35\<rparr>
      else if length ct > 50 then \<lparr>titleFontSize = 42, lineHeight = 50, maxCharsPerLine = 30\<rparr>
      else \<lparr>titleFontSize = 48, lineHeight = 58, maxCharsPerLine = 25\<rparr>)"

text \<open>
  The reducer of both wraps:
  \<^verbatim>\<open>
  (lines, word) => {
    const currentLine = lines[lines.length - 1];
    if (currentLine && (currentLine + ' ' + word).length < max) {
      lines[lines.length - 1] = currentLine + ' ' + word;
    } else {
      lines.push(word);
    }
    return lines;
  }\<close>
  \<open>lines[lines.length - 1]\<close> of an empty array is \<open>undefined\<close>, which is falsy like the
  empty string.
\<close>

definition wrapStep :: "nat \<Rightarrow> jsstring list \<Rightarrow> jsstring \<Rightarrow> jsstring list" where
  "wrapStep maxChars lines word =
     (if lines \<noteq> [] \<and> last lines \<noteq> [] \<and> length (last lines @ space # word) < maxChars
      then lines[length lines - 1 := last lines @ space # word]
      else lines @ [word])"

text \<open>\<open>text.split(' ').reduce(reducer, [''])\<close>\<close>

definition wordWrap :: "nat \<Rightarrow> jsstring \<Rightarrow> jsstring list" where
  "wordWrap maxChars s = foldl (wrapStep maxChars) [[]] (split_on space s)"

definition maxAuthorCharsPerLine :: nat where
  "maxAuthorCharsPerLine = 60"

definition authorLines :: "jsstring \<Rightarrow> jsstring list" where
  "authorLines cleanAuthor = wordWrap maxAuthorCharsPerLine cleanAuthor"

definition titleLines :: "jsstring \<Rightarrow> jsstring list" where
  "titleLines ct = wordWrap (maxCharsPerLine (titleTier ct)) ct"

text \<open>The number of lines that contain text.\<close>

definition textLineCount :: "jsstring list \<Rightarrow> nat" where
  "textLineCount ls = length (filter (\<lambda>l. l \<noteq> []) ls)"

section \<open>Layout\<close>

text \<open>
  JavaScript numbers are modelled by exact rationals. The only non-integer quantity of
  the layout is \<open>titleFontSize * 0.85\<close>, which is 40.8, 35.7 or 30.6 for the three
  tiers: the sums are far enough from a half for the rounding of the doubles and of the
  rationals to agree. \<open>Math.round\<close> is \<open>round\<close> (halves go up). The baselines, which
  are not rounded, are the exact values here; the doubles of the code can differ from
  them in the last place (\<open>20 + 36 * 0.85\<close> is 50.599999999999994 there and 253 / 5
  here).
\<close>

definition width :: int where "width = 800"
definition totalHeight :: int where "totalHeight = 1000"
definition topPadding :: rat where "topPadding = 20"
definition separatorSpacing :: rat where "separatorSpacing = 12"
definition separatorHeight :: rat where "separatorHeight = 2"
definition metadataSpacing :: rat where "metadataSpacing = 15"
definition metadataLineHeight :: rat where "metadataLineHeight = 18"
definition bottomPadding :: rat where "bottomPadding = 20"

definition titleStartY :: "tier \<Rightarrow> rat" where
  "titleStartY t = topPadding + of_nat (titleFontSize t) * (85 / 100)"

text \<open>
  \<^verbatim>\<open>const titleBlockHeight = (titleLines.length - 1) * lineHeight + (titleFontSize * 0.85)\<close>
\<close>

definition titleBlockHeight :: "tier \<Rightarrow> nat \<Rightarrow> rat" where
  "titleBlockHeight t titleLinesCount =
     (of_nat titleLinesCount - 1) * of_nat (lineHeight t) + of_nat (titleFontSize t) * (85 / 100)"

text \<open>
  \<^verbatim>\<open>
  let metadataBlockHeight = 0;
  if (includeAuthor) { metadataBlockHeight += authorLinesCount * metadataLineHeight; }
  if (includeDate) { metadataBlockHeight += metadataLineHeight; }
  if (!includeAuthor && !includeDate) { metadataBlockHeight = 0; }\<close>
\<close>

definition metadataBlockHeight :: "bool \<Rightarrow> bool \<Rightarrow> nat \<Rightarrow> rat" where
  "metadataBlockHeight includeAuthor includeDate authorLinesCount =
     (let m0 = 0;
          m1 = (if includeAuthor then m0 + of_nat authorLinesCount * metadataLineHeight else m0);
          m2 = (if includeDate then m1 + metadataLineHeight else m1)
      in if \<not> includeAuthor \<and> \<not> includeDate then 0 else m2)"

definition textHeight :: "tier \<Rightarrow> nat \<Rightarrow> nat \<Rightarrow> bool \<Rightarrow> bool \<Rightarrow> int" where
  "textHeight t titleLinesCount authorLinesCount includeAuthor includeDate =
     (let mbh = metadataBlockHeight includeAuthor includeDate authorLinesCount
      in round (topPadding + titleBlockHeight t titleLinesCount + separatorSpacing
                + separatorHeight + (if mbh > 0 then metadataSpacing + mbh else 0)
                + bottomPadding))"

section \<open>The text panel (textRenderer.ts)\<close>

text \<open>
  The panel is modelled by what \<open>renderTextBox\<close> asks the font engine to draw: one
  outline per line, with its font, baseline, size and colour. The engine itself
  (\<open>getSVG\<close>) is outside the repository; it answers every request with one path.
\<close>

datatype font = InterBold | InterSemiBold | InterMedium

record textPath =
  tp_font :: font
  tp_text :: jsstring
  tp_y :: rat
  tp_fontSize :: nat
  tp_fill :: jsstring

record textBoxOptions =
  o_width :: int
  o_height :: int
  o_backgroundColor :: jsstring
  o_title :: "jsstring list"
  o_titleFontSize :: nat
  o_titleLineHeight :: nat
  o_author :: "jsstring list option"
  o_date :: "jsstring option"
  o_source :: "jsstring option"
  o_topPadding :: rat
  o_separatorSpacing :: rat
  o_metadataSpacing :: rat
  o_metadataLineHeight :: rat

record textBox =
  tb_width :: int
  tb_height :: int
  tb_background :: jsstring
  tb_titlePaths :: "textPath list"
  tb_separatorY :: rat
  tb_metadataPaths :: "textPath list"

text \<open>\<open>xs.map((line, i) => f(line, i))\<close>\<close>

definition mapi :: "(jsstring \<Rightarrow> nat \<Rightarrow> 'b) \<Rightarrow> jsstring list \<Rightarrow> 'b list" where
  "mapi f xs = map (\<lambda>(line, i). f line i) (zip xs [0 ..< length xs])"

text \<open>An absent option (\<open>undefined\<close>) and the empty string are both falsy.\<close>

definition truthyStr :: "jsstring option \<Rightarrow> bool" where
  "truthyStr v = (case v of None \<Rightarrow> False | Some s \<Rightarrow> s \<noteq> [])"

text \<open>
  The separator between source and date as the file has it: the three code units
  U+00E2, U+20AC, U+00A2 between two spaces.
\<close>

definition sourceDateSeparator :: jsstring where
  "sourceDateSeparator = [0x20, 0xE2, 0x20AC, 0xA2, 0x20]"

definition authorPaths :: "textBoxOptions \<Rightarrow> rat \<Rightarrow> textPath list" where
  "authorPaths options currentY =
     (case o_author options of
        None \<Rightarrow> []
      | Some ls \<Rightarrow>
          if length ls > 0
          then mapi (\<lambda>line i. \<lparr>tp_font = InterSemiBold, tp_text = line,
                       tp_y = currentY + of_nat i * o_metadataLineHeight options,
                       tp_fontSize = 13, tp_fill = js ''#666666''\<rparr>) ls
          else [])"

definition afterAuthorY :: "textBoxOptions \<Rightarrow> rat \<Rightarrow> rat" where
  "afterAuthorY options currentY =
     (case o_author options of
        None \<Rightarrow> currentY
      | Some ls \<Rightarrow>
          if length ls > 0 then currentY + of_nat (length ls) * o_metadataLineHeight options
          else currentY)"

definition dateSourcePaths :: "textBoxOptions \<Rightarrow> rat \<Rightarrow> textPath list" where
  "dateSourcePaths options currentY =
     (if truthyStr (o_date options) \<and> truthyStr (o_source options)
      then [\<lparr>tp_font = InterMedium,
             tp_text = the (o_source options) @ sourceDateSeparator @ the (o_date options),
             tp_y = currentY, tp_fontSize = 13, tp_fill = js ''#999999''\<rparr>]
      else [])"

definition renderTextBox :: "textBoxOptions \<Rightarrow> textBox" where
  "renderTextBox options =
     (let currentY0 = o_topPadding options + of_nat (o_titleFontSize options) * (85 / 100);
          titlePaths = mapi (\<lambda>line i. \<lparr>tp_font = InterBold, tp_text = line,
                         tp_y = currentY0 + of_nat i * of_nat (o_titleLineHeight options),
                         tp_fontSize = o_titleFontSize options, tp_fill = js ''#000000''\<rparr>)
                         (o_title options);
          currentY1 = currentY0
            + (of_nat (length (o_title options)) - 1) * of_nat (o_titleLineHeight options);
          currentY2 = currentY1 + o_separatorSpacing options;
          separatorY = currentY2;
          currentY3 = currentY2 + (2 + o_metadataSpacing options);
          currentY4 = afterAuthorY options currentY3
      in \<lparr>tb_width = o_width options, tb_height = o_height options,
          tb_background = o_backgroundColor options,
          tb_titlePaths = titlePaths, tb_separatorY = separatorY,
          tb_metadataPaths = authorPaths options currentY3 @ dateSourcePaths options currentY4\<rparr>)"

section \<open>The card\<close>

text \<open>
  What the handler asks of the image library: the resize of the article image
  (\<open>fit: cover\<close>, centred), and the composite of the image at the top left, the text
  panel at \<open>panel_top\<close>, and the rounded mask.
\<close>

record card =
  resize_width :: int
  resize_height :: int
  image_top :: int
  panel :: textBox
  panel_top :: int
  mask_radius :: nat

record layoutInput =
  in_tier :: tier
  in_titleLines :: "jsstring list"
  in_authorLines :: "jsstring list"
  in_includeAuthor :: bool
  in_includeDate :: bool
  in_cleanDate :: jsstring
  in_cleanSource :: jsstring

definition panelOptions :: "layoutInput \<Rightarrow> int \<Rightarrow> jsstring \<Rightarrow> textBoxOptions" where
  "panelOptions i h bg =
     \<lparr>o_width = width, o_height = h, o_backgroundColor = bg,
      o_title = in_titleLines i,
      o_titleFontSize = titleFontSize (in_tier i),
      o_titleLineHeight = lineHeight (in_tier i),
      o_author = (if in_includeAuthor i then Some (in_authorLines i) else None),
      o_date = (if in_includeDate i then Some (in_cleanDate i) else None),
      o_source = Some (in_cleanSource i),
      o_topPadding = topPadding, o_separatorSpacing = separatorSpacing,
      o_metadataSpacing = metadataSpacing, o_metadataLineHeight = metadataLineHeight\<rparr>"

text \<open>
  \<^verbatim>\<open>const isHorizontal = (imageMetadata.width || 0) > (imageMetadata.height || 0)\<close>
  A dimension the library does not report is \<open>undefined\<close>, here \<open>None\<close>.
\<close>

definition orZero :: "nat option \<Rightarrow> nat" where
  "orZero d = (case d of None \<Rightarrow> 0 | Some n \<Rightarrow> n)"

definition isHorizontal :: "nat option \<Rightarrow> nat option \<Rightarrow> bool" where
  "isHorizontal w h = (orZero w > orZero h)"

definition renderCard :: "layoutInput \<Rightarrow> nat option \<Rightarrow> nat option \<Rightarrow> card" where
  "renderCard i imgWidth imgHeight =
     (let th = textHeight (in_tier i) (length (in_titleLines i)) (length (in_authorLines i))
                 (in_includeAuthor i) (in_includeDate i)
      in if isHorizontal imgWidth imgHeight
         then \<lparr>resize_width = width, resize_height = totalHeight - th, image_top = 0,
               panel = renderTextBox (panelOptions i th (js ''#FFFFFF'')),
               panel_top = totalHeight - th, mask_radius = 16\<rparr>
         else \<lparr>resize_width = width, resize_height = totalHeight, image_top = 0,
               panel = renderTextBox (panelOptions i th (js ''rgba(255, 255, 255, 0.85)'')),
               panel_top = totalHeight - th, mask_radius = 16\<rparr>)"

text \<open>
  route.ts builds the panel as SVG text instead (weights 700, 600 and 500 of the same
  family, here the three fonts), with the same geometry; the metadata is emitted only
  when \<open>metadataBlockHeight > 0\<close>, and source and date are joined by U+2022.
\<close>

definition inlineSeparator :: jsstring where
  "inlineSeparator = [0x20, 0x2022, 0x20]"

definition inlineTextSvg :: "layoutInput \<Rightarrow> int \<Rightarrow> jsstring \<Rightarrow> textBox" where
  "inlineTextSvg i h bg =
     (let t = in_tier i;
          authorLinesCount = length (in_authorLines i);
          mbh = metadataBlockHeight (in_includeAuthor i) (in_includeDate i) authorLinesCount;
          separatorY = titleStartY t
            + (of_nat (length (in_titleLines i)) - 1) * of_nat (lineHeight t) + separatorSpacing;
          metadataStartY = separatorY + separatorHeight + metadataSpacing
      in \<lparr>tb_width = width, tb_height = h, tb_background = bg,
          tb_titlePaths = mapi (\<lambda>line k. \<lparr>tp_font = InterBold, tp_text = line,
              tp_y = titleStartY t + of_nat k * of_nat (lineHeight t),
              tp_fontSize = titleFontSize t, tp_fill = js ''#000000''\<rparr>) (in_titleLines i),
          tb_separatorY = separatorY,
          tb_metadataPaths =
            (if mbh > 0
             then (if in_includeAuthor i
                   then mapi (\<lambda>line k. \<lparr>tp_font = InterSemiBold, tp_text = line,
                          tp_y = metadataStartY + of_nat k * metadataLineHeight,
                          tp_fontSize = 13, tp_fill = js ''#666666''\<rparr>) (in_authorLines i)
                   else [])
                  @ (if in_includeDate i
                     then [\<lparr>tp_font = InterMedium,
                            tp_text = in_cleanSource i @ inlineSeparator @ in_cleanDate i,
                            tp_y = metadataStartY
                              + (if in_includeAuthor i
                                 then of_nat authorLinesCount * metadataLineHeight else 0),
                            tp_fontSize = 13, tp_fill = js ''#999999''\<rparr>]
                     else [])
             else [])\<rparr>)"

definition renderCardInline :: "layoutInput \<Rightarrow> nat option \<Rightarrow> nat option \<Rightarrow> card" where
  "renderCardInline i imgWidth imgHeight =
     (let th = textHeight (in_tier i) (length (in_titleLines i)) (length (in_authorLines i))
                 (in_includeAuthor i) (in_includeDate i);
          imageHeight = totalHeight - th
      in if isHorizontal imgWidth imgHeight
         then \<lparr>resize_width = width, resize_height = totalHeight - th, image_top = 0,
               panel = inlineTextSvg i th (js ''#FFFFFF''),
               panel_top = imageHeight, mask_radius = 16\<rparr>
         else \<lparr>resize_width = width, resize_height = totalHeight, image_top = 0,
               panel = inlineTextSvg i th (js ''rgba(255, 255, 255, 0.85)''),
               panel_top = imageHeight, mask_radius = 16\<rparr>)"

text \<open>The layout input the handler derives from the cleaned strings and the two flags.\<close>

definition layoutOf ::
  "jsstring \<Rightarrow> jsstring \<Rightarrow> bool \<Rightarrow> bool \<Rightarrow> jsstring \<Rightarrow> jsstring \<Rightarrow> layoutInput" where
  "layoutOf ct cleanAuthor includeAuthor includeDate cleanDate cleanSource =
     \<lparr>in_tier = titleTier ct, in_titleLines = titleLines ct,
      in_authorLines = authorLines cleanAuthor,
      in_includeAuthor = includeAuthor, in_includeDate = includeDate,
      in_cleanDate = cleanDate, in_cleanSource = cleanSource\<rparr>"

subsection \<open>The text-box height as the specification words it\<close>

definition specMetadataBlockHeight :: "bool \<Rightarrow> bool \<Rightarrow> nat \<Rightarrow> rat" where
  "specMetadataBlockHeight includeAuthor includeDate authorLineCount =
     (if includeAuthor then of_nat authorLineCount * 18 else 0)
     + (if includeDate then 18 else 0)"

definition specTextBoxHeight :: "nat \<Rightarrow> nat \<Rightarrow> nat \<Rightarrow> nat \<Rightarrow> bool \<Rightarrow> bool \<Rightarrow> int" where
  "specTextBoxHeight titleLineCount lineHeight' fontSize authorLineCount includeAuthor includeDate =
     round (20 + ((of_nat titleLineCount - 1) * of_nat lineHeight' + (85 / 100) * of_nat fontSize)
            + 12 + 2
            + (if specMetadataBlockHeight includeAuthor includeDate authorLineCount > 0
               then 15 + specMetadataBlockHeight includeAuthor includeDate authorLineCount
               else 0)
            + 20)"

section \<open>More string operations\<close>

text \<open>\<open>a || b\<close> where \<open>a\<close> is a string or \<open>undefined\<close> (an attribute that may be absent).\<close>

definition orStr :: "jsstring option \<Rightarrow> jsstring \<Rightarrow> jsstring" where
  "orStr a b = (case a of None \<Rightarrow> b | Some s \<Rightarrow> if s \<noteq> [] then s else b)"

definition startsWith :: "jsstring \<Rightarrow> jsstring \<Rightarrow> bool" where
  "startsWith p s = (take (length p) s = p)"

text \<open>\<open>s.includes(sub)\<close>\<close>

fun includesStr :: "jsstring \<Rightarrow> jsstring \<Rightarrow> bool" where
  "includesStr sub [] = (sub = [])"
| "includesStr sub (c # cs) = (startsWith sub (c # cs) \<or> includesStr sub cs)"

text \<open>
  White space and line terminators of ECMAScript, as \<open>trim\<close> and the class \<open>\s\<close> use
  them.
\<close>

definition isLineTerminator :: "16 word \<Rightarrow> bool" where
  "isLineTerminator c = (c = 0x0A \<or> c = 0x0D \<or> c = 0x2028 \<or> c = 0x2029)"

definition isWhiteSpace :: "16 word \<Rightarrow> bool" where
  "isWhiteSpace c =
     (c = 0x09 \<or> c = 0x0B \<or> c = 0x0C \<or> c = 0x20 \<or> c = 0xA0 \<or> c = 0x1680
      \<or> (0x2000 \<le> c \<and> c \<le> 0x200A) \<or> c = 0x202F \<or> c = 0x205F \<or> c = 0x3000
      \<or> c = 0xFEFF \<or> isLineTerminator c)"

definition trim :: "jsstring \<Rightarrow> jsstring" where
  "trim s = rev (dropWhile isWhiteSpace (rev (dropWhile isWhiteSpace s)))"

text \<open>\<open>s.replace(pat, rep)\<close> with a string pattern: the first occurrence only.\<close>

fun replaceFirst :: "jsstring \<Rightarrow> jsstring \<Rightarrow> jsstring \<Rightarrow> jsstring" where
  "replaceFirst pat rep [] = (if pat = [] then rep else [])"
| "replaceFirst pat rep (c # cs) =
     (if startsWith pat (c # cs) then rep @ drop (length pat) (c # cs)
      else c # replaceFirst pat rep cs)"

text \<open>Decimal digits of a natural number.\<close>

fun showNat :: "nat \<Rightarrow> jsstring" where
  "showNat n =
     (if n < 10 then [of_nat (48 + n)] else showNat (n div 10) @ [of_nat (48 + n mod 10)])"

declare showNat.simps [simp del]

definition showInt :: "int \<Rightarrow> jsstring" where
  "showInt i = (if i < 0 then 0x2D # showNat (nat (- i)) else showNat (nat i))"

section \<open>JavaScript values\<close>

text \<open>
  The values \<open>JSON.parse\<close> returns, and \<open>undefined\<close>, which reading an absent property
  gives. Numbers are the integers that print in plain decimal digits (a JSON number
  with a fraction or of 22 digits and more is outside the model); an object is the list
  of its own properties, each key once.
\<close>

datatype jsval =
    JUndefined
  | JNull
  | JBool bool
  | JNum int
  | JStr jsstring
  | JArr "jsval list"
  | JObj "(jsstring \<times> jsval) list"

fun truthy :: "jsval \<Rightarrow> bool" where
  "truthy JUndefined = False"
| "truthy JNull = False"
| "truthy (JBool b) = b"
| "truthy (JNum n) = (n \<noteq> 0)"
| "truthy (JStr s) = (s \<noteq> [])"
| "truthy (JArr xs) = True"
| "truthy (JObj kvs) = True"

text \<open>
  \<open>v.k\<close> for one of the keys the handler reads (\<open>url\<close>, \<open>includeAuthor\<close>,
  \<open>includeDate\<close>, \<open>author\<close>, \<open>publisher\<close>, \<open>datePublished\<close>, \<open>name\<close>): a TypeError
  (\<open>None\<close>) on \<open>null\<close> and \<open>undefined\<close>, the own property of an object, and
  \<open>undefined\<close> on everything else, since no prototype has one of these keys.
\<close>

fun getProp :: "jsval \<Rightarrow> jsstring \<Rightarrow> jsval option" where
  "getProp JUndefined k = None"
| "getProp JNull k = None"
| "getProp (JObj kvs) k = (case map_of kvs k of None \<Rightarrow> Some JUndefined | Some v \<Rightarrow> Some v)"
| "getProp v k = Some JUndefined"

text \<open>\<open>typeof v === 'object'\<close>\<close>

fun typeofObject :: "jsval \<Rightarrow> bool" where
  "typeofObject JNull = True"
| "typeofObject (JArr xs) = True"
| "typeofObject (JObj kvs) = True"
| "typeofObject v = False"

fun isArray :: "jsval \<Rightarrow> bool" where
  "isArray (JArr xs) = True"
| "isArray v = False"

fun isString :: "jsval \<Rightarrow> bool" where
  "isString (JStr s) = True"
| "isString v = False"

text \<open>
  The conversion to a string that \<open>join\<close> applies to each element: \<open>None\<close> is the
  TypeError of an object whose own \<open>toString\<close> property hides the inherited method.
  \<open>join\<close> itself turns \<open>null\<close> and \<open>undefined\<close> into the empty string.
\<close>

fun toStr :: "jsval \<Rightarrow> jsstring option"
  and joinVals :: "jsstring \<Rightarrow> jsval list \<Rightarrow> jsstring option" where
  "toStr JUndefined = Some (js ''undefined'')"
| "toStr JNull = Some (js ''null'')"
| "toStr (JBool b) = Some (if b then js ''true'' else js ''false'')"
| "toStr (JNum n) = Some (showInt n)"
| "toStr (JStr s) = Some s"
| "toStr (JArr xs) = joinVals (js '','') xs"
| "toStr (JObj kvs) =
     (if js ''toString'' \<in> fst ` set kvs then None else Some (js ''[object Object]''))"
| "joinVals sep [] = Some []"
| "joinVals sep [x] = (if x = JUndefined \<or> x = JNull then Some [] else toStr x)"
| "joinVals sep (x # y # ys) =
     (case (if x = JUndefined \<or> x = JNull then Some [] else toStr x) of
        None \<Rightarrow> None
      | Some a \<Rightarrow>
          (case joinVals sep (y # ys) of None \<Rightarrow> None | Some b \<Rightarrow> Some (a @ sep @ b)))"

section \<open>The field resolver\<close>

text \<open>
  The document as the handler queries it: the \<open>content\<close> attribute of each meta tag
  (\<open>None\<close> when the tag or the attribute is missing), the text of the selected
  elements, and for each \<open>application/ld+json\<close> script, in document order, the result
  of \<open>JSON.parse\<close> on its text (\<open>None\<close> when parsing throws; an empty script parses as
  \<open>{}\<close>).
\<close>

record document =
  og_title :: "jsstring option"
  twitter_title :: "jsstring option"
  title_text :: jsstring
  og_image :: "jsstring option"
  twitter_image :: "jsstring option"
  og_image_url :: "jsstring option"
  jsonLdScripts :: "jsval option list"
  meta_author :: "jsstring option"
  rel_author_text :: jsstring
  class_author_text :: jsstring
  article_author :: "jsstring option"
  article_published_time :: "jsstring option"
  publish_date :: "jsstring option"
  time_datetime :: "jsstring option"
  og_site_name :: "jsstring option"
  application_name :: "jsstring option"

definition extractTitle :: "document \<Rightarrow> jsstring" where
  "extractTitle d =
     orStr (og_title d) (orStr (twitter_title d)
       (if title_text d \<noteq> [] then title_text d else js ''Untitled Article''))"

definition extractImageUrl :: "document \<Rightarrow> jsstring" where
  "extractImageUrl d = orStr (og_image d) (orStr (twitter_image d) (orStr (og_image_url d) []))"

text \<open>The three variables \<open>author\<close>, \<open>source\<close> and \<open>date\<close> of the handler.\<close>

record fields =
  author :: jsval
  source :: jsval
  date :: jsval

definition initialFields :: fields where
  "initialFields = \<lparr>author = JStr [], source = JStr [], date = JStr []\<rparr>"

text \<open>
  A step inside the \<open>try\<close> of one script either completes or throws; both carry the
  variables as they are at that point, since the \<open>catch\<close> only logs.
\<close>

datatype completion = Done fields | Thrown fields

text \<open>\<open>data.author.map((a) => a.name || a).filter(Boolean).join(', ')\<close>\<close>

fun nameOrSelf :: "jsval list \<Rightarrow> jsval list option" where
  "nameOrSelf [] = Some []"
| "nameOrSelf (a # as) =
     (case getProp a (js ''name'') of
        None \<Rightarrow> None
      | Some n \<Rightarrow>
          (case nameOrSelf as of
             None \<Rightarrow> None
           | Some rest \<Rightarrow> Some ((if truthy n then n else a) # rest)))"

definition authorFromArray :: "jsval list \<Rightarrow> jsstring option" where
  "authorFromArray as =
     (case nameOrSelf as of
        None \<Rightarrow> None
      | Some names \<Rightarrow> joinVals (js '', '') (filter truthy names))"

text \<open>\<open>v.name\<close> of a truthy value (reading it cannot throw).\<close>

definition nameOf :: "jsval \<Rightarrow> jsval" where
  "nameOf v = (case getProp v (js ''name'') of None \<Rightarrow> JUndefined | Some n \<Rightarrow> n)"

text \<open>
  \<^verbatim>\<open>
  if (!author && data.author) {
    if (Array.isArray(data.author)) {
      author = data.author.map((a: any) => a.name || a).filter(Boolean).join(', ')
    } else if (typeof data.author === 'object' && data.author.name) {
      author = data.author.name
    } else if (typeof data.author === 'string') {
      author = data.author
    }
  }\<close>
  \<open>data.author\<close> is read only when \<open>author\<close> is still falsy.
\<close>

definition authorStep :: "fields \<Rightarrow> jsval \<Rightarrow> completion" where
  "authorStep s data =
     (if truthy (author s) then Done s
      else case getProp data (js ''author'') of
        None \<Rightarrow> Thrown s
      | Some a \<Rightarrow>
          if \<not> truthy a then Done s
          else (case a of
              JArr as \<Rightarrow>
                (case authorFromArray as of
                   None \<Rightarrow> Thrown s
                 | Some joined \<Rightarrow> Done (s\<lparr>author := JStr joined\<rparr>))
            | _ \<Rightarrow>
                if typeofObject a \<and> truthy (nameOf a) then Done (s\<lparr>author := nameOf a\<rparr>)
                else if isString a then Done (s\<lparr>author := a\<rparr>)
                else Done s))"

definition publisherStep :: "fields \<Rightarrow> jsval \<Rightarrow> completion" where
  "publisherStep s data =
     (if truthy (source s) then Done s
      else case getProp data (js ''publisher'') of
        None \<Rightarrow> Thrown s
      | Some p \<Rightarrow>
          if \<not> truthy p then Done s
          else if typeofObject p \<and> truthy (nameOf p) then Done (s\<lparr>source := nameOf p\<rparr>)
          else if isString p then Done (s\<lparr>source := p\<rparr>)
          else Done s)"

definition dateStep :: "fields \<Rightarrow> jsval \<Rightarrow> completion" where
  "dateStep s data =
     (if truthy (date s) then Done s
      else case getProp data (js ''datePublished'') of
        None \<Rightarrow> Thrown s
      | Some v \<Rightarrow> if truthy v then Done (s\<lparr>date := v\<rparr>) else Done s)"

definition stateOf :: "completion \<Rightarrow> fields" where
  "stateOf c = (case c of Done s \<Rightarrow> s | Thrown s \<Rightarrow> s)"

definition andThen :: "completion \<Rightarrow> (fields \<Rightarrow> completion) \<Rightarrow> completion" where
  "andThen c f = (case c of Done s \<Rightarrow> f s | Thrown s \<Rightarrow> Thrown s)"

definition processData :: "fields \<Rightarrow> jsval \<Rightarrow> completion" where
  "processData s data =
     andThen (andThen (authorStep s data) (\<lambda>s1. publisherStep s1 data)) (\<lambda>s2. dateStep s2 data)"

text \<open>
  \<open>for (const data of dataArray) { ...; if (author && source && date) break }\<close>, with
  the state the loop leaves behind, also when an object throws.
\<close>

fun scanData :: "fields \<Rightarrow> jsval list \<Rightarrow> fields" where
  "scanData s [] = s"
| "scanData s (data # rest) =
     (case processData s data of
        Thrown s' \<Rightarrow> s'
      | Done s' \<Rightarrow>
          if truthy (author s') \<and> truthy (source s') \<and> truthy (date s') then s'
          else scanData s' rest)"

definition scanScript :: "fields \<Rightarrow> jsval option \<Rightarrow> fields" where
  "scanScript s script =
     (case script of
        None \<Rightarrow> s
      | Some parsed \<Rightarrow> scanData s (case parsed of JArr xs \<Rightarrow> xs | _ \<Rightarrow> [parsed]))"

definition scanScripts :: "fields \<Rightarrow> jsval option list \<Rightarrow> fields" where
  "scanScripts s scripts = foldl scanScript s scripts"

text \<open>
  The profile heuristic of \<open>article:author\<close>. \<open>matchProfile\<close> is
  \<open>url.match(/profile\/(.+)$/)\<close>: the leftmost \<open>profile/\<close> that is followed, up to the
  end of the string, by at least one code unit and by no line terminator; the result is
  the group.
\<close>

fun matchProfile :: "jsstring \<Rightarrow> jsstring option" where
  "matchProfile [] = None"
| "matchProfile (c # cs) =
     (let rest = drop 8 (c # cs)
      in if startsWith (js ''profile/'') (c # cs) \<and> rest \<noteq> []
            \<and> (\<forall>x \<in> set rest. \<not> isLineTerminator x)
         then Some rest else matchProfile cs)"

definition isWordChar :: "16 word \<Rightarrow> bool" where
  "isWordChar c =
     ((0x41 \<le> c \<and> c \<le> 0x5A) \<or> (0x61 \<le> c \<and> c \<le> 0x7A) \<or> (0x30 \<le> c \<and> c \<le> 0x39)
      \<or> c = 0x5F)"

text \<open>\<open>c.toUpperCase()\<close> of one word character.\<close>

definition upperWordChar :: "16 word \<Rightarrow> 16 word" where
  "upperWordChar c = (if 0x61 \<le> c \<and> c \<le> 0x7A then c - 0x20 else c)"

text \<open>
  \<open>s.replace(/\b\w/g, c => c.toUpperCase())\<close>: a word character is replaced when the
  code unit before it is not a word character, or when it is the first.
\<close>

fun capitalizeFrom :: "bool \<Rightarrow> jsstring \<Rightarrow> jsstring" where
  "capitalizeFrom prevWord [] = []"
| "capitalizeFrom prevWord (c # cs) =
     (if isWordChar c \<and> \<not> prevWord then upperWordChar c else c)
     # capitalizeFrom (isWordChar c) cs"

definition capitalizeWords :: "jsstring \<Rightarrow> jsstring" where
  "capitalizeWords s = capitalizeFrom False s"

text \<open>\<open>s.replace(/-/g, ' ')\<close>\<close>

definition dashesToSpaces :: "jsstring \<Rightarrow> jsstring" where
  "dashesToSpaces s = map (\<lambda>c. if c = 0x2D then 0x20 else c) s"

definition profileName :: "jsstring \<Rightarrow> jsstring" where
  "profileName url =
     (case matchProfile (trim url) of
        None \<Rightarrow> []
      | Some m \<Rightarrow> capitalizeWords (dashesToSpaces m))"

definition profileNames :: "jsstring \<Rightarrow> jsstring" where
  "profileNames articleAuthor =
     join (js '', '') (filter (\<lambda>n. n \<noteq> []) (map profileName (split_on 0x2C articleAuthor)))"

text \<open>The meta-tag and selector fallbacks, each behind its own \<open>if (!field)\<close>.\<close>

definition authorMeta :: "document \<Rightarrow> fields \<Rightarrow> fields" where
  "authorMeta d s =
     (if truthy (author s) then s
      else
        let metaAuthor = orStr (meta_author d)
              (if trim (rel_author_text d) \<noteq> [] then trim (rel_author_text d)
               else trim (class_author_text d))
        in if metaAuthor = []
           then
             let articleAuthor = orStr (article_author d) []
             in if includesStr (js ''profile/'') articleAuthor
                then s\<lparr>author := JStr (profileNames articleAuthor)\<rparr>
                else s\<lparr>author := JStr articleAuthor\<rparr>
           else s\<lparr>author := JStr metaAuthor\<rparr>)"

definition dateMeta :: "document \<Rightarrow> fields \<Rightarrow> fields" where
  "dateMeta d s =
     (if truthy (date s) then s
      else s\<lparr>date := JStr (orStr (article_published_time d)
                  (orStr (publish_date d) (orStr (time_datetime d) [])))\<rparr>)"

definition sourceMeta :: "document \<Rightarrow> fields \<Rightarrow> fields" where
  "sourceMeta d s =
     (if truthy (source s) then s
      else s\<lparr>source := JStr (orStr (og_site_name d) (orStr (application_name d) []))\<rparr>)"

text \<open>
  The host name of the request URL is what \<open>new URL(url).hostname\<close> gives; \<open>None\<close> is
  the exception of the constructor.
\<close>

definition sourceFallback :: "jsstring option \<Rightarrow> fields \<Rightarrow> fields" where
  "sourceFallback hostname s =
     (if truthy (source s) then s
      else case hostname of
        Some h \<Rightarrow> s\<lparr>source := JStr (replaceFirst (js ''www.'') [] h)\<rparr>
      | None \<Rightarrow> s\<lparr>source := JStr (js ''Unknown Source'')\<rparr>)"

definition authorFallback :: "fields \<Rightarrow> fields" where
  "authorFallback s = (if truthy (author s) then s else s\<lparr>author := JStr (js ''Unknown Author'')\<rparr>)"

definition resolveFields :: "document \<Rightarrow> jsstring option \<Rightarrow> fields" where
  "resolveFields d hostname =
     authorFallback (sourceFallback hostname (sourceMeta d (dateMeta d (authorMeta d
       (scanScripts initialFields (jsonLdScripts d))))))"

text \<open>
  The same cascade as a list of tiers in the order they run: one per script, then the
  fallbacks.
\<close>

definition tiers :: "document \<Rightarrow> jsstring option \<Rightarrow> (fields \<Rightarrow> fields) list" where
  "tiers d hostname =
     map (\<lambda>script s. scanScript s script) (jsonLdScripts d)
     @ [authorMeta d, dateMeta d, sourceMeta d, sourceFallback hostname, authorFallback]"

definition runTiers :: "(fields \<Rightarrow> fields) list \<Rightarrow> fields" where
  "runTiers ts = foldl (\<lambda>s f. f s) initialFields ts"

section \<open>Date formatting\<close>

text \<open>
  \<open>new Date(date)\<close> and \<open>toLocaleDateString\<close> belong to the runtime. The handler only
  sees whether the constructor gives a valid date, an invalid one, or throws; a valid
  date is formatted from its calendar day in the server's time zone. The two en-US
  formats the handler asks for are written out below for years of the common era:
  \<open>{month: 'long', day: 'numeric', year: 'numeric'}\<close> gives \<open>January 5, 2024\<close> and
  \<open>{month: 'short', day: '2-digit', year: 'numeric'}\<close> gives \<open>Jan 05, 2024\<close>.
\<close>

datatype month =
  January | February | March | April | May | June | July | August | September | October
  | November | December

record calendarDate =
  cd_year :: nat
  cd_month :: month
  cd_day :: nat

datatype dateResult = ValidDate calendarDate | InvalidDate | DateThrows

fun monthLong :: "month \<Rightarrow> jsstring" where
  "monthLong January = js ''January''"
| "monthLong February = js ''February''"
| "monthLong March = js ''March''"
| "monthLong April = js ''April''"
| "monthLong May = js ''May''"
| "monthLong June = js ''June''"
| "monthLong July = js ''July''"
| "monthLong August = js ''August''"
| "monthLong September = js ''September''"
| "monthLong October = js ''October''"
| "monthLong November = js ''November''"
| "monthLong December = js ''December''"

definition monthShort :: "month \<Rightarrow> jsstring" where
  "monthShort m = take 3 (monthLong m)"

definition twoDigits :: "nat \<Rightarrow> jsstring" where
  "twoDigits n = (if n < 10 then 0x30 # showNat n else showNat n)"

definition longDate :: "calendarDate \<Rightarrow> jsstring" where
  "longDate d = monthLong (cd_month d) @ js '' '' @ showNat (cd_day d) @ js '', '' @ showNat (cd_year d)"

definition shortDate :: "calendarDate \<Rightarrow> jsstring" where
  "shortDate d =
     monthShort (cd_month d) @ js '' '' @ twoDigits (cd_day d) @ js '', '' @ showNat (cd_year d)"

text \<open>\<open>.replace(/,/g, '').replace(/ /g, '-')\<close>\<close>

definition dashed :: "jsstring \<Rightarrow> jsstring" where
  "dashed s = map (\<lambda>c. if c = 0x20 then 0x2D else c) (filter (\<lambda>c. c \<noteq> 0x2C) s)"

text \<open>
  \<^verbatim>\<open>
  let formattedDate = 'Unknown Date'
  try {
    if (date) {
      formattedDate = new Date(date).toLocaleDateString('en-US',
        { month: 'long', day: 'numeric', year: 'numeric' })
    } else {
      formattedDate = new Date().toLocaleDateString('en-US',
        { month: 'short', day: '2-digit', year: 'numeric' }).replace(/,/g, '').replace(/ /g, '-')
    }
  } catch {
    formattedDate = new Date().toLocaleDateString('en-US',
      { month: 'short', day: '2-digit', year: 'numeric' }).replace(/,/g, '').replace(/ /g, '-')
  }\<close>
  \<open>toLocaleDateString\<close> of an invalid date does not throw: it returns \<open>Invalid Date\<close>.
\<close>

definition formatDate :: "(jsval \<Rightarrow> dateResult) \<Rightarrow> calendarDate \<Rightarrow> jsval \<Rightarrow> jsstring" where
  "formatDate parseDate today v =
     (if truthy v
      then (case parseDate v of
              ValidDate d \<Rightarrow> longDate d
            | InvalidDate \<Rightarrow> js ''Invalid Date''
            | DateThrows \<Rightarrow> dashed (shortDate today))
      else dashed (shortDate today))"

text \<open>A runtime in which no string parses as a date, for the examples.\<close>

definition noDates :: "jsval \<Rightarrow> dateResult" where
  "noDates v = InvalidDate"

section \<open>Author clean-up\<close>

definition lowerAscii :: "16 word \<Rightarrow> 16 word" where
  "lowerAscii c = (if 0x41 \<le> c \<and> c \<le> 0x5A then c + 0x20 else c)"

text \<open>
  \<open>s.replace(/^word\s+/i, '')\<close> for a lower-case ASCII \<open>word\<close>: when the string starts
  with the word in any case and at least one white space follows, the word and all the
  white space after it are removed.
\<close>

definition stripPrefix :: "jsstring \<Rightarrow> jsstring \<Rightarrow> jsstring" where
  "stripPrefix word s =
     (let rest = drop (length word) s
      in if map lowerAscii (take (length word) s) = word \<and> rest \<noteq> [] \<and> isWhiteSpace (hd rest)
         then dropWhile isWhiteSpace rest else s)"

text \<open>\<open>s.replace(/\s+/g, ' ')\<close>\<close>

function collapseSpaces :: "jsstring \<Rightarrow> jsstring" where
  "collapseSpaces [] = []"
| "collapseSpaces (c # cs) =
     (if isWhiteSpace c then 0x20 # collapseSpaces (dropWhile isWhiteSpace cs)
      else c # collapseSpaces cs)"
  by pat_completeness auto
termination
  by (relation "measure length") (auto simp: length_dropWhile_le less_Suc_eq_le)

text \<open>
  The separators of the \<open>split\<close> that keeps the part before the first of them: U+007C,
  U+2022, U+2013 and U+2014.
\<close>

definition isAuthorSeparator :: "16 word \<Rightarrow> bool" where
  "isAuthorSeparator c = (c = 0x7C \<or> c = 0x2022 \<or> c = 0x2013 \<or> c = 0x2014)"

text \<open>
  \<open>cleanAuthorName(author)\<close>: \<open>None\<close> is the TypeError of calling \<open>replace\<close> on a truthy
  value that is not a string.
\<close>

definition cleanAuthorName :: "jsval \<Rightarrow> jsstring option" where
  "cleanAuthorName name =
     (if \<not> truthy name then Some []
      else case name of
        JStr s \<Rightarrow>
          Some (trim (takeWhile (\<lambda>c. \<not> isAuthorSeparator c)
                  (collapseSpaces (stripPrefix (js ''author:'') (stripPrefix (js ''by'') s)))))
      | _ \<Rightarrow> None)"

section \<open>The request handler\<close>

text \<open>
  What the handler does to the outside world, in order: the page fetches with their
  attempt number, the back-off sleeps in milliseconds, and the image fetch.
\<close>

datatype event = FetchPage nat | Sleep nat | FetchImage jsstring

text \<open>A value thrown by \<open>fetch\<close>: an \<open>Error\<close> with its message, or anything else.\<close>

datatype thrown = ErrorObject jsstring | NotAnError

record pageResponse =
  status :: nat
  statusText :: jsstring
  pageBody :: "document option"

datatype fetchResult = Responded pageResponse | Rejected thrown

text \<open>
  The image fetch fails when \<open>fetch\<close> rejects, the response is not ok or the body
  cannot be read; otherwise the image library reports the intrinsic dimensions, or
  throws (\<open>None\<close>).
\<close>

datatype imageResult = ImageFailed | ImageBytes "(nat option \<times> nat option) option"

record metadata =
  m_title :: jsstring
  m_author :: jsval
  m_date :: jsstring
  m_source :: jsval
  m_imageUrl :: jsstring

datatype response = ErrorResponse nat jsstring | ImageResponse card metadata

text \<open>
  The collaborators of the handler: the URL parser (\<open>None\<close> when \<open>new URL(url)\<close>
  throws), the two fetches, the date runtime, \<open>toUpperCase\<close>, and whether the image
  library carries out a card without throwing.
\<close>

record env =
  hostnameOf :: "jsstring \<Rightarrow> jsstring option"
  fetchPage :: "nat \<Rightarrow> fetchResult"
  fetchImage :: "jsstring \<Rightarrow> imageResult"
  parseDate :: "jsval \<Rightarrow> dateResult"
  today :: calendarDate
  toUpperCase :: "jsstring \<Rightarrow> jsstring"
  libraryRenders :: "card \<Rightarrow> bool"

record loopState =
  htmlResponse :: "pageResponse option"
  lastError :: "thrown option"
  trace :: "event list"

definition maxRetries :: nat where
  "maxRetries = 3"

definition ok :: "pageResponse \<Rightarrow> bool" where
  "ok r = (200 \<le> status r \<and> status r \<le> 299)"

text \<open>
  \<^verbatim>\<open>
  for (let attempt = 0; attempt < maxRetries; attempt++) {
    try {
      htmlResponse = await fetch(url, ...);
      if (htmlResponse.ok || (htmlResponse.status >= 400 && htmlResponse.status < 500)) break;
      if (htmlResponse.status >= 500 && attempt < maxRetries - 1) {
        const backoffMs = Math.pow(2, attempt) * 1000;
        await new Promise(r => setTimeout(r, backoffMs));
        continue;
      }
      break;
    } catch (error) {
      lastError = error;
      if (attempt < maxRetries - 1) {
        const backoffMs = Math.pow(2, attempt) * 1000;
        await new Promise(r => setTimeout(r, backoffMs));
      }
    }
  }\<close>
\<close>

function retryLoop :: "(nat \<Rightarrow> fetchResult) \<Rightarrow> nat \<Rightarrow> loopState \<Rightarrow> loopState" where
  "retryLoop fetch attempt st =
     (if attempt < maxRetries
      then (case fetch attempt of
          Responded r \<Rightarrow>
            let st1 = st\<lparr>htmlResponse := Some r, trace := trace st @ [FetchPage attempt]\<rparr>
            in if ok r \<or> (status r \<ge> 400 \<and> status r < 500) then st1
               else if status r \<ge> 500 \<and> attempt < maxRetries - 1
               then retryLoop fetch (attempt + 1)
                      (st1\<lparr>trace := trace st1 @ [Sleep (2 ^ attempt * 1000)]\<rparr>)
               else st1
        | Rejected e \<Rightarrow>
            let st1 = st\<lparr>lastError := Some e, trace := trace st @ [FetchPage attempt]\<rparr>
            in if attempt < maxRetries - 1
               then retryLoop fetch (attempt + 1)
                      (st1\<lparr>trace := trace st1 @ [Sleep (2 ^ attempt * 1000)]\<rparr>)
               else retryLoop fetch (attempt + 1) st1)
      else st)"
  by pat_completeness auto
termination
  by (relation "measure (\<lambda>(fetch, attempt, st). maxRetries - attempt)") auto

declare retryLoop.simps [simp del]

definition initialLoop :: loopState where
  "initialLoop = \<lparr>htmlResponse = None, lastError = None, trace = []\<rparr>"

definition unexpected :: response where
  "unexpected = ErrorResponse 500 (js ''An unexpected error occurred while generating the image'')"

text \<open>\<open>lastError instanceof Error ? lastError.message : 'Network error'\<close>\<close>

definition failureReason :: "thrown option \<Rightarrow> jsstring" where
  "failureReason e = (case e of Some (ErrorObject m) \<Rightarrow> m | _ \<Rightarrow> js ''Network error'')"

text \<open>\<open>x.toUpperCase()\<close> of a variable that should hold a string; \<open>None\<close> is the TypeError.\<close>

definition upperOf :: "env \<Rightarrow> jsval \<Rightarrow> jsstring option" where
  "upperOf e v = (case v of JStr s \<Rightarrow> Some (toUpperCase e s) | _ \<Rightarrow> None)"

text \<open>
  The two handlers of the repository, the one with the retry loop and the outline
  renderer and the one of route.ts, run the same statements from the parsed page on,
  except for the resolver and for the renderer of the card; these two are parameters
  of the next two definitions.

  From the clean-up of the texts to the response, once the image bytes are there.
\<close>

definition renderStage ::
  "(layoutInput \<Rightarrow> nat option \<Rightarrow> nat option \<Rightarrow> card) \<Rightarrow> env \<Rightarrow> bool \<Rightarrow> bool \<Rightarrow> jsstring
   \<Rightarrow> fields \<Rightarrow> jsstring \<Rightarrow> jsstring \<Rightarrow> (nat option \<times> nat option) option \<Rightarrow> response" where
  "renderStage render e includeAuthor includeDate title f formattedDate imageUrl dims =
     (case cleanAuthorName (author f) of
        None \<Rightarrow> unexpected
      | Some cleaned \<Rightarrow>
          (case upperOf e (source f) of
             None \<Rightarrow> unexpected
           | Some cleanSource \<Rightarrow>
               (case dims of
                  None \<Rightarrow> unexpected
                | Some (w, h) \<Rightarrow>
                    let c = render
                          (layoutOf (cleanTitle title) (toUpperCase e cleaned) includeAuthor
                             includeDate (toUpperCase e formattedDate) cleanSource) w h
                    in if libraryRenders e c
                       then ImageResponse c
                              \<lparr>m_title = title, m_author = author f, m_date = formattedDate,
                               m_source = source f, m_imageUrl = imageUrl\<rparr>
                       else unexpected)))"

text \<open>From the parsed page to the response.\<close>

definition pageStage ::
  "(document \<Rightarrow> jsstring option \<Rightarrow> fields)
   \<Rightarrow> (layoutInput \<Rightarrow> nat option \<Rightarrow> nat option \<Rightarrow> card)
   \<Rightarrow> env \<Rightarrow> jsstring option \<Rightarrow> bool \<Rightarrow> bool \<Rightarrow> document \<Rightarrow> event list
   \<Rightarrow> response \<times> event list" where
  "pageStage resolve render e hostname includeAuthor includeDate d tr =
     (let title = extractTitle d;
          imageUrl = extractImageUrl d;
          f = resolve d hostname;
          formattedDate = formatDate (parseDate e) (today e) (date f)
      in if imageUrl = []
         then (ErrorResponse 400
                 (js ''No article image found. Please try a different article.''), tr)
         else (case fetchImage e imageUrl of
                 ImageFailed \<Rightarrow>
                   (ErrorResponse 500 (js ''Failed to fetch article image''),
                    tr @ [FetchImage imageUrl])
               | ImageBytes dims \<Rightarrow>
                   (renderStage render e includeAuthor includeDate title f formattedDate
                      imageUrl dims,
                    tr @ [FetchImage imageUrl])))"

text \<open>
  The answer to a page response that is not ok. A status outside 200..599 cannot be
  passed on, and neither can 304, the one status of 300..599 that allows no body: the
  response constructor throws, and the outer \<open>catch\<close> answers.
\<close>

definition passOn :: "pageResponse \<Rightarrow> response" where
  "passOn r =
     (if 200 \<le> status r \<and> status r \<le> 599 \<and> status r \<noteq> 304
      then ErrorResponse (status r)
             (js ''Failed to fetch article: '' @ showNat (status r) @ js '' '' @ statusText r)
      else unexpected)"

text \<open>From the end of the retry loop to the response.\<close>

definition afterFetch ::
  "env \<Rightarrow> jsstring option \<Rightarrow> bool \<Rightarrow> bool \<Rightarrow> loopState \<Rightarrow> response \<times> event list" where
  "afterFetch e hostname includeAuthor includeDate st =
     (case htmlResponse st of
        None \<Rightarrow>
          (ErrorResponse 500 (js ''Failed to fetch article: '' @ failureReason (lastError st)),
           trace st)
      | Some r \<Rightarrow>
          if status r = 403
          then (ErrorResponse 403
                  (js ''This news site is blocking automated access (403). Try a different article.''),
                trace st)
          else if \<not> ok r then (passOn r, trace st)
          else (case pageBody r of
                  None \<Rightarrow> (unexpected, trace st)
                | Some d \<Rightarrow>
                    pageStage resolveFields renderCard e hostname includeAuthor includeDate d
                      (trace st)))"

text \<open>
  \<open>const { url, includeAuthor = true, includeDate = true } = await request.json()\<close>: a
  default applies when the property is \<open>undefined\<close>. The body is \<open>None\<close> when
  \<open>request.json()\<close> throws.
\<close>

definition flag :: "jsval \<Rightarrow> jsstring \<Rightarrow> bool" where
  "flag body k = (case getProp body k of Some JUndefined \<Rightarrow> True | Some v \<Rightarrow> truthy v | None \<Rightarrow> True)"

text \<open>The handler with the retry loop (the first file of src/unnamed/part_001).\<close>

definition POST :: "env \<Rightarrow> jsval option \<Rightarrow> response \<times> event list" where
  "POST e body =
     (case body of
        None \<Rightarrow> (unexpected, [])
      | Some b \<Rightarrow>
          (case getProp b (js ''url'') of
             None \<Rightarrow> (unexpected, [])
           | Some (JStr url) \<Rightarrow>
               if url = [] then (ErrorResponse 400 (js ''URL is required''), [])
               else (case hostnameOf e url of
                   None \<Rightarrow> (ErrorResponse 400 (js ''Invalid URL format''), [])
                 | Some h \<Rightarrow>
                     afterFetch e (Some h) (flag b (js ''includeAuthor''))
                       (flag b (js ''includeDate'')) (retryLoop (fetchPage e) 0 initialLoop))
           | Some v \<Rightarrow> (ErrorResponse 400 (js ''URL is required''), [])))"

subsection \<open>The handler of route.ts\<close>

text \<open>
  route.ts fetches the page once (a rejected fetch goes to the outer \<open>catch\<close>), has no
  special answer for 403, reads each script as one object, takes the names of an author
  array with \<open>data.author.map((a) => a.name).join(', ')\<close>, and resolves the author from
  the meta tags by
  \<^verbatim>\<open>
  author = $('meta[name="author"]').attr('content') ||
    $('meta[property="article:author"]').attr('content') ||
    $('[rel="author"]').first().text().trim() ||
    $('.author').first().text().trim() || ''\<close>
\<close>

fun namesOf :: "jsval list \<Rightarrow> jsval list option" where
  "namesOf [] = Some []"
| "namesOf (a # as) =
     (case getProp a (js ''name'') of
        None \<Rightarrow> None
      | Some n \<Rightarrow> (case namesOf as of None \<Rightarrow> None | Some rest \<Rightarrow> Some (n # rest)))"

definition authorStepRoute :: "fields \<Rightarrow> jsval \<Rightarrow> completion" where
  "authorStepRoute s data =
     (if truthy (author s) then Done s
      else case getProp data (js ''author'') of
        None \<Rightarrow> Thrown s
      | Some a \<Rightarrow>
          if \<not> truthy a then Done s
          else (case a of
              JArr as \<Rightarrow>
                (case namesOf as of
                   None \<Rightarrow> Thrown s
                 | Some names \<Rightarrow>
                     (case joinVals (js '', '') names of
                        None \<Rightarrow> Thrown s
                      | Some joined \<Rightarrow> Done (s\<lparr>author := JStr joined\<rparr>)))
            | _ \<Rightarrow>
                if typeofObject a \<and> truthy (nameOf a) then Done (s\<lparr>author := nameOf a\<rparr>)
                else if isString a then Done (s\<lparr>author := a\<rparr>)
                else Done s))"

definition scanScriptRoute :: "fields \<Rightarrow> jsval option \<Rightarrow> fields" where
  "scanScriptRoute s script =
     (case script of
        None \<Rightarrow> s
      | Some data \<Rightarrow>
          stateOf (andThen (andThen (authorStepRoute s data) (\<lambda>s1. publisherStep s1 data))
                     (\<lambda>s2. dateStep s2 data)))"

definition authorMetaRoute :: "document \<Rightarrow> fields \<Rightarrow> fields" where
  "authorMetaRoute d s =
     (if truthy (author s) then s
      else s\<lparr>author := JStr (orStr (meta_author d) (orStr (article_author d)
                    (if trim (rel_author_text d) \<noteq> [] then trim (rel_author_text d)
                     else trim (class_author_text d))))\<rparr>)"

definition resolveFieldsRoute :: "document \<Rightarrow> jsstring option \<Rightarrow> fields" where
  "resolveFieldsRoute d hostname =
     authorFallback (sourceFallback hostname (sourceMeta d (dateMeta d (authorMetaRoute d
       (foldl scanScriptRoute initialFields (jsonLdScripts d))))))"

definition POSTroute :: "env \<Rightarrow> jsval option \<Rightarrow> response \<times> event list" where
  "POSTroute e body =
     (case body of
        None \<Rightarrow> (unexpected, [])
      | Some b \<Rightarrow>
          (case getProp b (js ''url'') of
             None \<Rightarrow> (unexpected, [])
           | Some (JStr url) \<Rightarrow>
               if url = [] then (ErrorResponse 400 (js ''URL is required''), [])
               else (case hostnameOf e url of
                   None \<Rightarrow> (ErrorResponse 400 (js ''Invalid URL format''), [])
                 | Some h \<Rightarrow>
                     (case fetchPage e 0 of
                        Rejected err \<Rightarrow> (unexpected, [FetchPage 0])
                      | Responded r \<Rightarrow>
                          if \<not> ok r then (passOn r, [FetchPage 0])
                          else (case pageBody r of
                              None \<Rightarrow> (unexpected, [FetchPage 0])
                            | Some d \<Rightarrow>
                                pageStage resolveFieldsRoute renderCardInline e (Some h)
                                  (flag b (js ''includeAuthor'')) (flag b (js ''includeDate''))
                                  d [FetchPage 0])))
           | Some v \<Rightarrow> (ErrorResponse 400 (js ''URL is required''), [])))"

text \<open>Counting the page fetches of a trace, and telling the image fetches.\<close>

fun isFetchPage :: "event \<Rightarrow> bool" where
  "isFetchPage (FetchPage n) = True"
| "isFetchPage ev = False"

fun isFetchImage :: "event \<Rightarrow> bool" where
  "isFetchImage (FetchImage u) = True"
| "isFetchImage ev = False"

definition pageFetches :: "event list \<Rightarrow> nat" where
  "pageFetches tr = length (filter isFetchPage tr)"

subsection \<open>Collaborators for the examples\<close>

text \<open>
  The runtime of the specification's scenario A, where \<open>2024-01-05\<close> is the fifth of
  January 2024 and nothing else is a date.
\<close>

definition scenarioDates :: "jsval \<Rightarrow> dateResult" where
  "scenarioDates v =
     (if v = JStr (js ''2024-01-05'')
      then ValidDate \<lparr>cd_year = 2024, cd_month = January, cd_day = 5\<rparr> else InvalidDate)"

text \<open>
  An environment in which every page fetch has the same result and every image fetch
  has the same result, on the second of November 2026; every URL parses, with host
  \<open>site.com\<close>.
\<close>

definition constantEnv :: "fetchResult \<Rightarrow> imageResult \<Rightarrow> env" where
  "constantEnv pageResult imgResult =
     \<lparr>hostnameOf = (\<lambda>u. Some (js ''site.com'')),
      fetchPage = (\<lambda>attempt. pageResult),
      fetchImage = (\<lambda>u. imgResult),
      parseDate = scenarioDates,
      today = \<lparr>cd_year = 2026, cd_month = November, cd_day = 2\<rparr>,
      toUpperCase = map upperWordChar,
      libraryRenders = (\<lambda>c. True)\<rparr>"

text \<open>
  An entry of the comma-separated \<open>article:author\<close> content that holds a profile URL:
  white space, the URL, white space. The URL is given by what stands before its first
  \<open>profile/\<close> and by what follows it, which is not empty; the URL neither begins nor ends
  with white space, it has no comma, and no line terminator follows \<open>profile/\<close>.
\<close>

record profileEntry =
  padBefore :: jsstring
  beforeProfile :: jsstring
  afterProfile :: jsstring
  padAfter :: jsstring

definition entryUrl :: "profileEntry \<Rightarrow> jsstring" where
  "entryUrl e = beforeProfile e @ js ''profile/'' @ afterProfile e"

definition entryText :: "profileEntry \<Rightarrow> jsstring" where
  "entryText e = padBefore e @ entryUrl e @ padAfter e"

definition isProfileEntry :: "profileEntry \<Rightarrow> bool" where
  "isProfileEntry e =
     ((\<forall>c \<in> set (padBefore e @ padAfter e). isWhiteSpace c)
      \<and> afterProfile e \<noteq> []
      \<and> \<not> isWhiteSpace (last (afterProfile e))
      \<and> (\<forall>c \<in> set (afterProfile e). \<not> isLineTerminator c)
      \<and> (beforeProfile e \<noteq> [] \<longrightarrow> \<not> isWhiteSpace (hd (beforeProfile e)))
      \<and> 0x2C \<notin> set (entryUrl e)
      \<and> \<not> includesStr (js ''profile/'') (beforeProfile e @ js ''profile''))"

text \<open>
  The heuristic as the specification words it: of each URL the last path segment (what
  follows the last \<open>/\<close>), with dashes replaced by spaces and each word given a capital
  first letter, joined by a comma and a space. The capital first letters are described
  position by position: a word character is replaced by its upper case when it is the
  first code unit or follows a code unit that is not a word character.
\<close>

definition lastSegment :: "jsstring \<Rightarrow> jsstring" where
  "lastSegment url = last (split_on 0x2F url)"

definition specCapitalize :: "jsstring \<Rightarrow> jsstring" where
  "specCapitalize s =
     map (\<lambda>i. if isWordChar (s ! i) \<and> (i = 0 \<or> \<not> isWordChar (s ! (i - 1)))
              then upperWordChar (s ! i) else s ! i) [0 ..< length s]"

definition specProfileAuthor :: "jsstring \<Rightarrow> jsstring" where
  "specProfileAuthor content =
     join (js '', '')
       (map (\<lambda>entry. specCapitalize (dashesToSpaces (lastSegment (trim entry))))
          (split_on 0x2C content))"

text \<open>A tier keeps a field when it leaves every truthy value of that field as it is.\<close>

definition keeps :: "(fields \<Rightarrow> jsval) \<Rightarrow> (fields \<Rightarrow> fields) \<Rightarrow> bool" where
  "keeps field f = (\<forall>s. truthy (field s) \<longrightarrow> field (f s) = field s)"

text \<open>A document with no metadata at all, the base of the examples.\<close>

definition emptyDocument :: document where
  "emptyDocument =
     \<lparr>og_title = None, twitter_title = None, title_text = [],
      og_image = None, twitter_image = None, og_image_url = None,
      jsonLdScripts = [],
      meta_author = None, rel_author_text = [], class_author_text = [], article_author = None,
      article_published_time = None, publish_date = None, time_datetime = None,
      og_site_name = None, application_name = None\<rparr>"

section \<open>Facts about strings\<close>

lemma split_on_not_Nil: "split_on sep s \<noteq> []"
  by (induction s) (auto split: list.splits)

lemma split_on_no_sep: "w \<in> set (split_on sep s) \<Longrightarrow> sep \<notin> set w"
proof (induction s arbitrary: w)
  case Nil
  then show ?case by simp
next
  case (Cons c cs)
  show ?case
  proof (cases "c = sep")
    case True
    with Cons show ?thesis by auto
  next
    case False
    obtain v vs where vs: "split_on sep cs = v # vs"
      using split_on_not_Nil [of sep cs] by (cases "split_on sep cs") auto
    with False Cons.prems have "w = c # v \<or> w \<in> set vs" by simp
    then show ?thesis
    proof
      assume "w = c # v"
      moreover have "sep \<notin> set v" using Cons.IH [of v] vs by simp
      ultimately show ?thesis using False by auto
    next
      assume "w \<in> set vs"
      then show ?thesis using Cons.IH [of w] vs by simp
    qed
  qed
qed

lemma split_on_pieces:
  "split_on sep (a @ sep # b) = split_on sep a @ split_on sep b"
proof (induction a)
  case Nil
  show ?case by simp
next
  case (Cons c a)
  obtain w ws where "split_on sep a = w # ws"
    using split_on_not_Nil [of sep a] by (cases "split_on sep a") auto
  with Cons show ?case by simp
qed

lemma split_on_single: "sep \<notin> set a \<Longrightarrow> split_on sep a = [a]"
  by (induction a) auto

lemma split_on_join:
  "xs \<noteq> [] \<Longrightarrow> \<forall>x \<in> set xs. sep \<notin> set x \<Longrightarrow> split_on sep (join [sep] xs) = xs"
proof (induction xs)
  case Nil
  then show ?case by simp
next
  case (Cons x xs)
  show ?case
  proof (cases xs)
    case Nil
    with Cons.prems show ?thesis by (simp add: split_on_single)
  next
    case (Cons y ys)
    have "split_on sep (x @ sep # join [sep] (y # ys))
        = split_on sep x @ split_on sep (join [sep] (y # ys))"
      by (rule split_on_pieces)
    with Cons Cons.IH Cons.prems show ?thesis by (simp add: split_on_single)
  qed
qed

lemma last_split_on:
  "sep \<notin> set b \<Longrightarrow> last (split_on sep (a @ sep # b)) = b"
  by (simp add: split_on_pieces split_on_single)

lemma trim_padded:
  assumes "u \<noteq> []" "\<not> isWhiteSpace (hd u)" "\<not> isWhiteSpace (last u)"
    "\<forall>c \<in> set l. isWhiteSpace c" "\<forall>c \<in> set r. isWhiteSpace c"
  shows "trim (l @ u @ r) = u"
proof -
  have "dropWhile isWhiteSpace (l @ u @ r) = dropWhile isWhiteSpace (u @ r)"
    by (rule dropWhile_append2) (use assms(4) in simp)
  also have "\<dots> = u @ r" using assms(1,2) by (cases u) auto
  finally have a: "dropWhile isWhiteSpace (l @ u @ r) = u @ r" .
  have "dropWhile isWhiteSpace (rev r @ rev u) = dropWhile isWhiteSpace (rev u)"
    by (rule dropWhile_append2) (use assms(5) in simp)
  moreover have "dropWhile isWhiteSpace (rev u) = rev u"
    using assms(1,3) by (cases "rev u") (auto simp: last_rev [symmetric] simp del: last_rev)
  ultimately show ?thesis by (simp add: trim_def a)
qed

lemma take_append_le: "n \<le> length xs \<Longrightarrow> take n (xs @ ys) = take n xs"
  by simp

lemma includesStr_append: "includesStr (js ''profile/'') (a @ js ''profile/'' @ b)"
proof (induction a)
  case Nil
  show ?case by (simp add: js_def startsWith_def)
next
  case (Cons c a)
  then show ?case by simp
qed

lemma join_not_Nil: "x \<noteq> [] \<Longrightarrow> join sep (x # xs) \<noteq> []"
  by (cases xs) auto

section \<open>Facts about the word wrap\<close>

lemma wrapStep_not_Nil: "wrapStep m ls w \<noteq> []"
  by (simp add: wrapStep_def)

lemma wrapStep_set:
  "l \<in> set (wrapStep m ls w) \<Longrightarrow> l \<in> set ls \<or> l = w \<or> length l < m"
  by (auto simp: wrapStep_def split: if_splits dest!: set_update_subset_insert [THEN subsetD])

lemma foldl_wrapStep_set:
  "l \<in> set (foldl (wrapStep m) ls ws) \<Longrightarrow> l \<in> set ls \<or> l \<in> set ws \<or> length l < m"
proof (induction ws arbitrary: ls)
  case Nil
  then show ?case by simp
next
  case (Cons w ws)
  from Cons.prems have "l \<in> set (foldl (wrapStep m) (wrapStep m ls w) ws)" by simp
  from Cons.IH [OF this] show ?case
    using wrapStep_set [of l m ls w] by auto
qed

lemma wordWrap_line:
  "l \<in> set (wordWrap m s) \<Longrightarrow> l = [] \<or> l \<in> set (split_on space s) \<or> length l < m"
  unfolding wordWrap_def using foldl_wrapStep_set [of l m "[[]]" "split_on space s"] by auto

text \<open>The seed line stays at the head and stays empty.\<close>

lemma wrapStep_hd:
  assumes "ls \<noteq> []" "hd ls = []"
  shows "hd (wrapStep m ls w) = [] \<and> 2 \<le> length (wrapStep m ls w)"
proof (cases "last ls = []")
  case True
  with assms show ?thesis
    by (cases ls) (auto simp: wrapStep_def)
next
  case False
  with assms have len: "2 \<le> length ls"
    by (cases ls; cases "tl ls") auto
  then have "hd (ls[length ls - 1 := v]) = []" for v
    using assms by (simp add: hd_conv_nth)
  with len assms show ?thesis
    by (simp add: wrapStep_def)
qed

lemma foldl_wrapStep_hd:
  "ls \<noteq> [] \<Longrightarrow> hd ls = [] \<Longrightarrow> ws \<noteq> [] \<Longrightarrow>
   hd (foldl (wrapStep m) ls ws) = [] \<and> 2 \<le> length (foldl (wrapStep m) ls ws)"
proof (induction ws arbitrary: ls)
  case Nil
  then show ?case by simp
next
  case (Cons w ws)
  have step: "hd (wrapStep m ls w) = [] \<and> 2 \<le> length (wrapStep m ls w)"
    using wrapStep_hd Cons.prems by simp
  show ?case
  proof (cases ws)
    case Nil
    with step show ?thesis by simp
  next
    case (Cons v vs)
    then have "ws \<noteq> []" by simp
    with step Cons.IH [of "wrapStep m ls w"] wrapStep_not_Nil [of m ls w]
    show ?thesis by simp
  qed
qed

lemma wordWrap_hd: "hd (wordWrap m s) = [] \<and> 2 \<le> length (wordWrap m s)"
  unfolding wordWrap_def
  using foldl_wrapStep_hd [of "[[]]" "split_on space s" m] split_on_not_Nil [of space s]
  by simp

text \<open>When every word is non-empty, the seed is the only empty line.\<close>

lemma wrapStep_tl:
  assumes "ls \<noteq> []" "hd ls = []" "\<forall>l \<in> set (tl ls). l \<noteq> []" "w \<noteq> []"
  shows "\<forall>l \<in> set (tl (wrapStep m ls w)). l \<noteq> []"
proof (cases "last ls \<noteq> [] \<and> length (last ls @ space # w) < m")
  case True
  with assms have len: "2 \<le> length ls"
    by (cases ls; cases "tl ls") auto
  have "tl (ls[length ls - 1 := v]) = (tl ls)[length ls - 2 := v]" for v
    using len by (cases ls) (auto simp: list_update_code split: nat.splits)
  then have "set (tl (ls[length ls - 1 := v])) \<subseteq> insert v (set (tl ls))" for v
    using set_update_subset_insert [of "tl ls" "length ls - 2" v] by simp
  with True assms show ?thesis
    by (auto simp: wrapStep_def)
next
  case False
  with assms show ?thesis
    by (cases ls) (auto simp: wrapStep_def)
qed

lemma foldl_wrapStep_tl:
  "ls \<noteq> [] \<Longrightarrow> hd ls = [] \<Longrightarrow> \<forall>l \<in> set (tl ls). l \<noteq> [] \<Longrightarrow> [] \<notin> set ws \<Longrightarrow>
   \<forall>l \<in> set (tl (foldl (wrapStep m) ls ws)). l \<noteq> []"
proof (induction ws arbitrary: ls)
  case Nil
  then show ?case by simp
next
  case (Cons w ws)
  have "wrapStep m ls w \<noteq> []" by (rule wrapStep_not_Nil)
  moreover have "hd (wrapStep m ls w) = []" using wrapStep_hd Cons.prems by simp
  moreover have "\<forall>l \<in> set (tl (wrapStep m ls w)). l \<noteq> []"
    using wrapStep_tl [of ls w m] Cons.prems by auto
  moreover have "[] \<notin> set ws" using Cons.prems by simp
  ultimately show ?case using Cons.IH [of "wrapStep m ls w"] by simp
qed

lemma wordWrap_tl:
  "[] \<notin> set (split_on space s) \<Longrightarrow> \<forall>l \<in> set (tl (wordWrap m s)). l \<noteq> []"
  unfolding wordWrap_def using foldl_wrapStep_tl [of "[[]]" "split_on space s" m] by simp

lemma textLineCount_seed:
  assumes "hd ls = []" "ls \<noteq> []"
  shows "textLineCount ls = textLineCount (tl ls)"
  using assms by (cases ls) (auto simp: textLineCount_def)

lemma textLineCount_le: "textLineCount ls \<le> length ls"
  by (simp add: textLineCount_def)

lemma textLineCount_all: "\<forall>l \<in> set ls. l \<noteq> [] \<Longrightarrow> textLineCount ls = length ls"
  by (simp add: textLineCount_def)

lemma wordWrap_budget:
  assumes "0 < m" "l \<in> set (wordWrap m s)"
  shows "length l < m \<or> (l \<in> set (split_on space s) \<and> space \<notin> set l \<and> m \<le> length l)"
  using wordWrap_line [OF assms(2)] assms(1) split_on_no_sep [of l space s] by auto

lemma titleTier_pos: "0 < maxCharsPerLine (titleTier ct)"
  by (simp add: titleTier_def)

lemma titleBlockHeight_inflated:
  "of_nat (lineHeight (titleTier ct)) + of_nat (titleFontSize (titleTier ct)) * (85 / 100)
   \<le> titleBlockHeight (titleTier ct) (length (titleLines ct))"
proof -
  have "2 \<le> length (titleLines ct)"
    using wordWrap_hd [of "maxCharsPerLine (titleTier ct)" ct] by (simp add: titleLines_def)
  then have "(1 :: rat) \<le> of_nat (length (titleLines ct)) - 1"
    by (metis le_diff_eq of_nat_1 of_nat_le_iff one_add_one of_nat_add)
  then have "1 * of_nat (lineHeight (titleTier ct))
    \<le> (of_nat (length (titleLines ct)) - 1 :: rat) * of_nat (lineHeight (titleTier ct))"
    by (intro mult_right_mono) auto
  then show ?thesis by (simp add: titleBlockHeight_def)
qed

lemma metadataBlockHeight_spec:
  "metadataBlockHeight ia idt a = specMetadataBlockHeight ia idt a"
  by (simp add: metadataBlockHeight_def specMetadataBlockHeight_def metadataLineHeight_def Let_def)

lemma no_metadata_paths:
  assumes "\<not> in_includeAuthor i" "\<not> in_includeDate i"
  shows "tb_metadataPaths (panel (renderCard i w h)) = []"
    and "tb_metadataPaths (panel (renderCardInline i w h)) = []"
  using assms
  by (simp_all add: renderCard_def renderCardInline_def renderTextBox_def inlineTextSvg_def
      panelOptions_def authorPaths_def dateSourcePaths_def truthyStr_def metadataBlockHeight_def
      Let_def)

lemma mapi_nth: "k < length xs \<Longrightarrow> mapi f xs ! k = f (xs ! k) k"
  by (simp add: mapi_def)

lemma title_baselines:
  assumes "k < length (titleLines ct)"
  shows "tb_titlePaths (panel (renderCard (layoutOf ct ca ia idt cd cs) w h)) ! k
      = \<lparr>tp_font = InterBold, tp_text = titleLines ct ! k,
         tp_y = titleStartY (titleTier ct) + of_nat k * of_nat (lineHeight (titleTier ct)),
         tp_fontSize = titleFontSize (titleTier ct), tp_fill = js ''#000000''\<rparr>"
    and "tb_titlePaths (panel (renderCardInline (layoutOf ct ca ia idt cd cs) w h)) ! k
      = \<lparr>tp_font = InterBold, tp_text = titleLines ct ! k,
         tp_y = titleStartY (titleTier ct) + of_nat k * of_nat (lineHeight (titleTier ct)),
         tp_fontSize = titleFontSize (titleTier ct), tp_fill = js ''#000000''\<rparr>"
  using assms
  by (simp_all add: renderCard_def renderCardInline_def Let_def renderTextBox_def
      inlineTextSvg_def panelOptions_def layoutOf_def mapi_nth titleStartY_def topPadding_def)

section \<open>Facts about the field resolver\<close>

lemma authorStep_keeps:
  "source (stateOf (authorStep s d)) = source s"
  "date (stateOf (authorStep s d)) = date s"
  "truthy (author s) \<Longrightarrow> author (stateOf (authorStep s d)) = author s"
  by (auto simp: authorStep_def stateOf_def split: option.splits jsval.splits)

lemma publisherStep_keeps:
  "author (stateOf (publisherStep s d)) = author s"
  "date (stateOf (publisherStep s d)) = date s"
  "truthy (source s) \<Longrightarrow> source (stateOf (publisherStep s d)) = source s"
  by (auto simp: publisherStep_def stateOf_def split: option.splits)

lemma dateStep_keeps:
  "author (stateOf (dateStep s d)) = author s"
  "source (stateOf (dateStep s d)) = source s"
  "truthy (date s) \<Longrightarrow> date (stateOf (dateStep s d)) = date s"
  by (auto simp: dateStep_def stateOf_def split: option.splits)

lemma processData_keeps:
  "truthy (author s) \<Longrightarrow> author (stateOf (processData s d)) = author s"
  "truthy (source s) \<Longrightarrow> source (stateOf (processData s d)) = source s"
  "truthy (date s) \<Longrightarrow> date (stateOf (processData s d)) = date s"
proof -
  obtain s1 where s1: "s1 = stateOf (authorStep s d)" by simp
  obtain s2 where s2: "s2 = stateOf (publisherStep s1 d)" by simp
  have cases: "stateOf (processData s d) = s1 \<or> stateOf (processData s d) = s2
      \<or> stateOf (processData s d) = stateOf (dateStep s2 d)"
    unfolding processData_def s1 s2
    by (auto simp: andThen_def stateOf_def split: completion.splits)
  show "truthy (author s) \<Longrightarrow> author (stateOf (processData s d)) = author s"
    using cases authorStep_keeps(3) [of s d] publisherStep_keeps(1) [of s1 d]
      dateStep_keeps(1) [of s2 d] s1 s2 by auto
  show "truthy (source s) \<Longrightarrow> source (stateOf (processData s d)) = source s"
    using cases authorStep_keeps(1) [of s d] publisherStep_keeps(3) [of s1 d]
      dateStep_keeps(2) [of s2 d] s1 s2 by auto
  show "truthy (date s) \<Longrightarrow> date (stateOf (processData s d)) = date s"
    using cases authorStep_keeps(2) [of s d] publisherStep_keeps(2) [of s1 d]
      dateStep_keeps(3) [of s2 d] s1 s2 by auto
qed

lemma scanData_keeps:
  "truthy (author s) \<Longrightarrow> author (scanData s ds) = author s"
  "truthy (source s) \<Longrightarrow> source (scanData s ds) = source s"
  "truthy (date s) \<Longrightarrow> date (scanData s ds) = date s"
proof (induction ds arbitrary: s)
  case Nil
  { case 1 then show ?case by simp }
  { case 2 then show ?case by simp }
  { case 3 then show ?case by simp }
next
  case (Cons d ds)
  { case 1
    with processData_keeps(1) [of s d] Cons.IH(1) [of "stateOf (processData s d)"]
    show ?case by (auto simp: stateOf_def split: completion.splits) }
  { case 2
    with processData_keeps(2) [of s d] Cons.IH(2) [of "stateOf (processData s d)"]
    show ?case by (auto simp: stateOf_def split: completion.splits) }
  { case 3
    with processData_keeps(3) [of s d] Cons.IH(3) [of "stateOf (processData s d)"]
    show ?case by (auto simp: stateOf_def split: completion.splits) }
qed

lemma scanScript_keeps:
  "keeps author (\<lambda>s. scanScript s b)" "keeps source (\<lambda>s. scanScript s b)"
  "keeps date (\<lambda>s. scanScript s b)"
  by (auto simp: keeps_def scanScript_def scanData_keeps split: option.splits)

lemma fallback_keeps:
  "keeps author (authorMeta d)" "keeps source (authorMeta d)" "keeps date (authorMeta d)"
  "keeps author (dateMeta d)" "keeps source (dateMeta d)" "keeps date (dateMeta d)"
  "keeps author (sourceMeta d)" "keeps source (sourceMeta d)" "keeps date (sourceMeta d)"
  "keeps author (sourceFallback h)" "keeps source (sourceFallback h)" "keeps date (sourceFallback h)"
  "keeps author authorFallback" "keeps source authorFallback" "keeps date authorFallback"
  by (auto simp: keeps_def authorMeta_def dateMeta_def sourceMeta_def sourceFallback_def
      authorFallback_def Let_def split: option.splits)

lemma tiers_keep:
  "f \<in> set (tiers d h) \<Longrightarrow> keeps author f \<and> keeps source f \<and> keeps date f"
  using scanScript_keeps fallback_keeps by (auto simp: tiers_def)

lemma foldl_keeps:
  "\<forall>f \<in> set fs. keeps field f \<Longrightarrow> truthy (field s) \<Longrightarrow>
   field (foldl (\<lambda>s f. f s) s fs) = field s"
proof (induction fs arbitrary: s)
  case Nil
  then show ?case by simp
next
  case (Cons f fs)
  then have "field (f s) = field s" by (simp add: keeps_def)
  with Cons show ?case by simp
qed

lemma resolveFields_tiers: "resolveFields d h = runTiers (tiers d h)"
  by (simp add: resolveFields_def runTiers_def tiers_def scanScripts_def foldl_map)

lemma runTiers_take_keeps:
  assumes "\<forall>f \<in> set ts. keeps field f" "truthy (field (runTiers (take k ts)))"
  shows "field (runTiers ts) = field (runTiers (take k ts))"
proof -
  have "runTiers ts = foldl (\<lambda>s f. f s) (runTiers (take k ts)) (drop k ts)"
    unfolding runTiers_def by (metis append_take_drop_id foldl_append)
  moreover have "\<forall>f \<in> set (drop k ts). keeps field f"
    using assms(1) by (meson in_set_dropD)
  ultimately show ?thesis using foldl_keeps assms(2) by metis
qed

subsection \<open>The profile heuristic\<close>

lemma matchProfile_here:
  assumes "slug \<noteq> []" "\<forall>x \<in> set slug. \<not> isLineTerminator x"
  shows "matchProfile (js ''profile/'' @ slug) = Some slug"
proof -
  show ?thesis using assms by (simp add: js_def startsWith_def)
qed

lemma matchProfile_prefix:
  assumes "\<not> includesStr (js ''profile/'') (pre @ js ''profile'')"
    "slug \<noteq> []" "\<forall>x \<in> set slug. \<not> isLineTerminator x"
  shows "matchProfile (pre @ js ''profile/'' @ slug) = Some slug"
  using assms(1)
proof (induction pre)
  case Nil
  then show ?case using matchProfile_here [OF assms(2,3)] by simp
next
  case (Cons c pre)
  have no: "\<not> startsWith (js ''profile/'') (c # pre @ js ''profile'')"
    and rest: "\<not> includesStr (js ''profile/'') (pre @ js ''profile'')"
    using Cons.prems by simp_all
  have e: "c # pre @ js ''profile/'' @ slug = (c # pre @ js ''profile'') @ 0x2F # slug"
    by (simp add: js_def)
  have "8 \<le> length (c # pre @ js ''profile'')" by (simp add: js_def)
  then have "take 8 ((c # pre @ js ''profile'') @ 0x2F # slug) = take 8 (c # pre @ js ''profile'')"
    by (rule take_append_le)
  then have "take 8 (c # pre @ js ''profile/'' @ slug) = take 8 (c # pre @ js ''profile'')"
    unfolding e .
  moreover have "length (js ''profile/'') = 8" by (simp add: js_def)
  ultimately have "\<not> startsWith (js ''profile/'') (c # pre @ js ''profile/'' @ slug)"
    using no unfolding startsWith_def by metis
  then have "matchProfile (c # pre @ js ''profile/'' @ slug) = matchProfile (pre @ js ''profile/'' @ slug)"
    by (simp add: Let_def)
  with Cons.IH [OF rest] show ?case by simp
qed

lemma length_capitalizeFrom: "length (capitalizeFrom p s) = length s"
  by (induction s arbitrary: p) auto

lemma capitalizeFrom_nth:
  "i < length s \<Longrightarrow>
   capitalizeFrom p s ! i
   = (if isWordChar (s ! i) \<and> \<not> (if i = 0 then p else isWordChar (s ! (i - 1)))
      then upperWordChar (s ! i) else s ! i)"
proof (induction s arbitrary: p i)
  case Nil
  then show ?case by simp
next
  case (Cons c cs)
  show ?case
  proof (cases i)
    case 0
    then show ?thesis by simp
  next
    case (Suc j)
    with Cons.prems have "j < length cs" by simp
    from Cons.IH [OF this, of "isWordChar c"] Suc show ?thesis
      by (cases j) simp_all
  qed
qed

lemma capitalize_spec: "capitalizeWords s = specCapitalize s"
  by (rule nth_equalityI)
    (simp_all add: capitalizeWords_def specCapitalize_def length_capitalizeFrom
      capitalizeFrom_nth)

lemma capitalize_not_Nil: "rest \<noteq> [] \<Longrightarrow> specCapitalize (dashesToSpaces rest) \<noteq> []"
  by (simp add: specCapitalize_def dashesToSpaces_def)

lemma entryUrl_ends:
  assumes "isProfileEntry e"
  shows "entryUrl e \<noteq> []" "\<not> isWhiteSpace (hd (entryUrl e))"
    "\<not> isWhiteSpace (last (entryUrl e))"
proof -
  show "entryUrl e \<noteq> []" by (simp add: entryUrl_def js_def)
  show "\<not> isWhiteSpace (hd (entryUrl e))"
    using assms
    by (cases "beforeProfile e")
      (simp_all add: entryUrl_def isProfileEntry_def js_def isWhiteSpace_def
        isLineTerminator_def)
  show "\<not> isWhiteSpace (last (entryUrl e))"
    using assms by (simp add: entryUrl_def isProfileEntry_def)
qed

lemma trim_entry: "isProfileEntry e \<Longrightarrow> trim (entryText e) = entryUrl e"
  unfolding entryText_def
  by (rule trim_padded) (auto simp: entryUrl_ends isProfileEntry_def)

lemma profileName_entry:
  assumes "isProfileEntry e"
  shows "profileName (entryText e) = specCapitalize (dashesToSpaces (afterProfile e))"
proof -
  have "matchProfile (entryUrl e) = Some (afterProfile e)"
    unfolding entryUrl_def using assms
    by (intro matchProfile_prefix) (simp_all add: isProfileEntry_def)
  then show ?thesis
    by (simp add: profileName_def trim_entry [OF assms] capitalize_spec)
qed

lemma lastSegment_entry:
  "0x2F \<notin> set (afterProfile e) \<Longrightarrow> lastSegment (entryUrl e) = afterProfile e"
proof -
  assume a: "0x2F \<notin> set (afterProfile e)"
  have u: "entryUrl e = (beforeProfile e @ js ''profile'') @ 0x2F # afterProfile e"
    by (simp add: entryUrl_def js_def)
  show ?thesis
    unfolding lastSegment_def u by (rule last_split_on [OF a])
qed

lemma comma_not_space: "\<not> isWhiteSpace 0x2C"
  by (simp add: isWhiteSpace_def isLineTerminator_def)

lemma entryText_no_comma: "isProfileEntry e \<Longrightarrow> 0x2C \<notin> set (entryText e)"
  using comma_not_space by (auto simp: isProfileEntry_def entryText_def)

lemma split_entries:
  assumes "es \<noteq> []" "\<forall>e \<in> set es. isProfileEntry e"
  shows "split_on 0x2C (join [0x2C] (map entryText es)) = map entryText es"
  using assms by (intro split_on_join) (auto simp: entryText_no_comma)

lemma profileNames_entries:
  assumes "es \<noteq> []" "\<forall>e \<in> set es. isProfileEntry e"
  shows "profileNames (join [0x2C] (map entryText es))
      = join (js '', '') (map (\<lambda>e. specCapitalize (dashesToSpaces (afterProfile e))) es)"
proof -
  have names: "map profileName (map entryText es)
      = map (\<lambda>e. specCapitalize (dashesToSpaces (afterProfile e))) es"
    using assms(2) by (simp add: profileName_entry)
  have pn: "profileNames (join [0x2C] (map entryText es))
      = join (js '', '') (filter (\<lambda>n. n \<noteq> []) (map profileName (map entryText es)))"
    unfolding profileNames_def split_entries [OF assms] by (rule refl)
  have "\<forall>n \<in> set (map (\<lambda>e. specCapitalize (dashesToSpaces (afterProfile e))) es). n \<noteq> []"
    using assms(2) capitalize_not_Nil by (auto simp: isProfileEntry_def)
  then have "filter (\<lambda>n. n \<noteq> []) (map (\<lambda>e. specCapitalize (dashesToSpaces (afterProfile e))) es)
      = map (\<lambda>e. specCapitalize (dashesToSpaces (afterProfile e))) es"
    by (simp only: filter_True)
  then show ?thesis
    unfolding pn names by simp
qed

lemma specProfileAuthor_entries:
  assumes "es \<noteq> []" "\<forall>e \<in> set es. isProfileEntry e"
    "\<forall>e \<in> set es. 0x2F \<notin> set (afterProfile e)"
  shows "specProfileAuthor (join [0x2C] (map entryText es))
      = join (js '', '') (map (\<lambda>e. specCapitalize (dashesToSpaces (afterProfile e))) es)"
proof -
  have h: "map (\<lambda>entry. specCapitalize (dashesToSpaces (lastSegment (trim entry))))
          (map entryText es)
      = map (\<lambda>e. specCapitalize (dashesToSpaces (afterProfile e))) es"
    using assms(2,3) by (simp add: trim_entry lastSegment_entry)
  show ?thesis
    unfolding specProfileAuthor_def split_entries [OF assms(1,2)] h by (rule refl)
qed

lemma includesStr_entries:
  assumes "es \<noteq> []"
  shows "includesStr (js ''profile/'') (join [0x2C] (map entryText es))"
proof -
  obtain v vs where es: "es = v # vs" using assms by (cases es) auto
  have "includesStr (js ''profile/'')
      ((padBefore v @ beforeProfile v) @ js ''profile/'' @ (afterProfile v @ t))" for t
    by (rule includesStr_append)
  from this [of "padAfter v"]
    this [of "padAfter v @ [0x2C] @ join [0x2C] (map entryText vs)"]
  show ?thesis
    unfolding es by (cases vs) (simp_all add: entryText_def entryUrl_def)
qed

lemma authorMeta_profile:
  assumes "\<not> truthy (author s)" "\<not> truthyStr (meta_author d)"
    "trim (rel_author_text d) = []" "trim (class_author_text d) = []"
    "article_author d = Some a" "includesStr (js ''profile/'') a"
  shows "author (authorMeta d s) = JStr (profileNames a)"
proof -
  have "a \<noteq> []" using assms(6) by (cases a) (auto simp: js_def)
  with assms show ?thesis
    by (auto simp: authorMeta_def orStr_def truthyStr_def Let_def split: option.splits)
qed

lemma later_tiers_author:
  "truthy (author s) \<Longrightarrow>
   author (authorFallback (sourceFallback h (sourceMeta d (dateMeta d s)))) = author s"
  by (simp add: authorFallback_def sourceFallback_def sourceMeta_def dateMeta_def
      split: option.splits)

section \<open>Facts about the date format\<close>

lemma digit_plain:
  assumes "(n::nat) < 10"
  shows "(of_nat (48 + n) :: 16 word) \<noteq> 0x2C \<and> (of_nat (48 + n) :: 16 word) \<noteq> 0x20"
proof -
  have u: "unat (of_nat (48 + n) :: 16 word) = 48 + n"
    using assms by (subst unat_of_nat) simp
  have "unat (of_nat (48 + n) :: 16 word) \<noteq> unat (0x2C :: 16 word)"
    and "unat (of_nat (48 + n) :: 16 word) \<noteq> unat (0x20 :: 16 word)"
    unfolding u by simp_all
  then show ?thesis by metis
qed

lemma showNat_plain: "c \<in> set (showNat n) \<Longrightarrow> c \<noteq> 0x2C \<and> c \<noteq> 0x20"
proof (induction n rule: showNat.induct)
  case (1 n)
  show ?case
  proof (cases "n < 10")
    case True
    with "1.prems" have "c = of_nat (48 + n)" by (simp add: showNat.simps [of n])
    with digit_plain [OF True] show ?thesis by simp
  next
    case False
    with "1.prems" have "c \<in> set (showNat (n div 10)) \<or> c = of_nat (48 + n mod 10)"
      by (auto simp: showNat.simps [of n])
    then show ?thesis
      using "1.IH" [OF False] digit_plain [of "n mod 10"] by auto
  qed
qed

lemma dashed_append: "dashed (a @ b) = dashed a @ dashed b"
  by (simp add: dashed_def)

lemma dashed_plain: "\<forall>c \<in> set s. c \<noteq> 0x2C \<and> c \<noteq> 0x20 \<Longrightarrow> dashed s = s"
  by (induction s) (auto simp: dashed_def)

lemma dashed_showNat: "dashed (showNat n) = showNat n"
  using showNat_plain by (intro dashed_plain) blast

lemma dashed_twoDigits: "dashed (twoDigits n) = twoDigits n"
proof -
  have "dashed [0x30] = [0x30]" by (simp add: dashed_def)
  then show ?thesis using dashed_append [of "[0x30]" "showNat n"]
    by (simp add: twoDigits_def dashed_showNat)
qed

lemma dashed_monthShort: "dashed (monthShort m) = monthShort m"
  by (cases m) (simp_all add: monthShort_def dashed_def js_def)

lemma dashed_shortDate:
  "dashed (shortDate d)
   = monthShort (cd_month d) @ js ''-'' @ twoDigits (cd_day d) @ js ''-'' @ showNat (cd_year d)"
proof -
  have "dashed (js '' '') = js ''-''" "dashed (js '', '') = js ''-''"
    by (simp_all add: dashed_def js_def)
  then show ?thesis
    by (simp add: shortDate_def dashed_append dashed_monthShort dashed_twoDigits dashed_showNat)
qed

lemma formatDate_invalid:
  "truthy v \<Longrightarrow> parse v = InvalidDate \<Longrightarrow> formatDate parse now v = js ''Invalid Date''"
  by (simp add: formatDate_def)

section \<open>Facts about the retry loop\<close>

lemma retryLoop_stop:
  assumes "attempt < maxRetries" "fetch attempt = Responded r"
    "ok r \<or> (400 \<le> status r \<and> status r < 500)"
  shows "retryLoop fetch attempt st
      = st\<lparr>htmlResponse := Some r, trace := trace st @ [FetchPage attempt]\<rparr>"
  using assms by (subst retryLoop.simps) (auto simp: Let_def)

lemma retryLoop_server_error:
  assumes "attempt < maxRetries - 1" "fetch attempt = Responded r" "500 \<le> status r"
  shows "retryLoop fetch attempt st
      = retryLoop fetch (attempt + 1)
          (st\<lparr>htmlResponse := Some r,
              trace := trace st @ [FetchPage attempt, Sleep (2 ^ attempt * 1000)]\<rparr>)"
  using assms by (subst retryLoop.simps) (auto simp: Let_def ok_def maxRetries_def)

lemma retryLoop_rejected:
  assumes "attempt < maxRetries - 1" "fetch attempt = Rejected err"
  shows "retryLoop fetch attempt st
      = retryLoop fetch (attempt + 1)
          (st\<lparr>lastError := Some err,
              trace := trace st @ [FetchPage attempt, Sleep (2 ^ attempt * 1000)]\<rparr>)"
  using assms by (subst retryLoop.simps) (auto simp: Let_def maxRetries_def)

lemma retryLoop_last_rejected:
  assumes "attempt = maxRetries - 1" "fetch attempt = Rejected err"
  shows "retryLoop fetch attempt st
      = st\<lparr>lastError := Some err, trace := trace st @ [FetchPage attempt]\<rparr>"
proof -
  have "retryLoop fetch (attempt + 1) s = s" for s
    using assms(1) by (subst retryLoop.simps) (simp add: maxRetries_def)
  then show ?thesis
    using assms by (subst retryLoop.simps) (simp add: Let_def maxRetries_def)
qed

lemma pageFetches_append: "pageFetches (a @ b) = pageFetches a + pageFetches b"
  by (simp add: pageFetches_def)

lemma retryLoop_fetches:
  "pageFetches (trace (retryLoop fetch attempt st))
   \<le> pageFetches (trace st) + (maxRetries - attempt)"
proof (induction fetch attempt st rule: retryLoop.induct)
  case (1 fetch attempt st)
  show ?case
  proof (cases "attempt < maxRetries")
    case False
    then show ?thesis by (subst retryLoop.simps) simp
  next
    case True
    show ?thesis
    proof (cases "fetch attempt")
      case (Responded r)
      let ?st1 = "st\<lparr>htmlResponse := Some r, trace := trace st @ [FetchPage attempt]\<rparr>"
      show ?thesis
      proof (cases "\<not> (ok r \<or> (status r \<ge> 400 \<and> status r < 500))
          \<and> status r \<ge> 500 \<and> attempt < maxRetries - 1")
        case True
        then have a: "\<not> (ok r \<or> (status r \<ge> 400 \<and> status r < 500))"
          and b: "status r \<ge> 500 \<and> attempt < maxRetries - 1" by auto
        have ih: "pageFetches (trace (retryLoop fetch (attempt + 1)
              (?st1\<lparr>trace := trace ?st1 @ [Sleep (2 ^ attempt * 1000)]\<rparr>)))
            \<le> pageFetches (trace (?st1\<lparr>trace := trace ?st1 @ [Sleep (2 ^ attempt * 1000)]\<rparr>))
              + (maxRetries - (attempt + 1))"
          using "1.IH"(1) [OF \<open>attempt < maxRetries\<close> Responded refl a b] .
        have "retryLoop fetch attempt st = retryLoop fetch (attempt + 1)
              (?st1\<lparr>trace := trace ?st1 @ [Sleep (2 ^ attempt * 1000)]\<rparr>)"
          using True Responded \<open>attempt < maxRetries\<close>
          by (subst retryLoop.simps) (simp add: Let_def)
        with ih \<open>attempt < maxRetries\<close> show ?thesis
          by (simp add: pageFetches_append) (simp add: pageFetches_def)
      next
        case False
        then have "retryLoop fetch attempt st = ?st1"
          using Responded \<open>attempt < maxRetries\<close>
          by (subst retryLoop.simps) (auto simp: Let_def)
        with \<open>attempt < maxRetries\<close> show ?thesis
          by (simp add: pageFetches_def)
      qed
    next
      case (Rejected err)
      let ?st1 = "st\<lparr>lastError := Some err, trace := trace st @ [FetchPage attempt]\<rparr>"
      show ?thesis
      proof (cases "attempt < maxRetries - 1")
        case True
        have ih: "pageFetches (trace (retryLoop fetch (attempt + 1)
              (?st1\<lparr>trace := trace ?st1 @ [Sleep (2 ^ attempt * 1000)]\<rparr>)))
            \<le> pageFetches (trace (?st1\<lparr>trace := trace ?st1 @ [Sleep (2 ^ attempt * 1000)]\<rparr>))
              + (maxRetries - (attempt + 1))"
          using "1.IH"(2) [OF \<open>attempt < maxRetries\<close> Rejected refl True] .
        have "retryLoop fetch attempt st = retryLoop fetch (attempt + 1)
              (?st1\<lparr>trace := trace ?st1 @ [Sleep (2 ^ attempt * 1000)]\<rparr>)"
          using True Rejected \<open>attempt < maxRetries\<close>
          by (subst retryLoop.simps) (simp add: Let_def)
        with ih \<open>attempt < maxRetries\<close> show ?thesis
          by (simp add: pageFetches_append) (simp add: pageFetches_def)
      next
        case False
        have ih: "pageFetches (trace (retryLoop fetch (attempt + 1) ?st1))
            \<le> pageFetches (trace ?st1) + (maxRetries - (attempt + 1))"
          using "1.IH"(3) [OF \<open>attempt < maxRetries\<close> Rejected refl False] .
        have "retryLoop fetch attempt st = retryLoop fetch (attempt + 1) ?st1"
          using False Rejected \<open>attempt < maxRetries\<close>
          by (subst retryLoop.simps) (simp add: Let_def)
        with ih \<open>attempt < maxRetries\<close> show ?thesis
          by (simp add: pageFetches_append) (simp add: pageFetches_def)
      qed
    qed
  qed
qed

lemma retryLoop_no_image:
  "filter isFetchImage (trace (retryLoop fetch attempt st)) = filter isFetchImage (trace st)"
proof (induction fetch attempt st rule: retryLoop.induct)
  case (1 fetch attempt st)
  show ?case
    by (subst retryLoop.simps) (use 1 in \<open>auto simp: Let_def split: fetchResult.splits\<close>)
qed

lemma all_rejected:
  assumes "fetch 0 = Rejected e0" "fetch 1 = Rejected e1" "fetch 2 = Rejected e2"
  shows "retryLoop fetch 0 initialLoop
      = \<lparr>htmlResponse = None, lastError = Some e2,
         trace = [FetchPage 0, Sleep 1000, FetchPage 1, Sleep 2000, FetchPage 2]\<rparr>"
proof -
  have a: "retryLoop fetch 0 initialLoop = retryLoop fetch 1
      (initialLoop\<lparr>lastError := Some e0, trace := trace initialLoop @ [FetchPage 0, Sleep (2 ^ 0 * 1000)]\<rparr>)"
    using retryLoop_rejected [of 0 fetch e0 initialLoop] assms(1) by (simp add: maxRetries_def)
  have b: "retryLoop fetch 1 s = retryLoop fetch 2
      (s\<lparr>lastError := Some e1, trace := trace s @ [FetchPage 1, Sleep (2 ^ 1 * 1000)]\<rparr>)" for s
    using retryLoop_rejected [of 1 fetch e1 s] assms(2) by (simp add: maxRetries_def numeral_2_eq_2)
  have c: "retryLoop fetch 2 s = s\<lparr>lastError := Some e2, trace := trace s @ [FetchPage 2]\<rparr>" for s
    using retryLoop_last_rejected [of 2 fetch e2 s] assms(3) by (simp add: maxRetries_def)
  show ?thesis unfolding a b c by (simp add: initialLoop_def)
qed

section \<open>The claims\<close>

text \<open>
  Claim C9. A title longer than 150 code units is displayed as its first 150 code units
  followed by \<open>...\<close> (153 code units in all); a title of at most 150 code units is
  displayed unchanged.
\<close>

theorem cleanTitle_truncation:
  "(150 < length title \<longrightarrow>
      cleanTitle title = take 150 title @ js ''...'' \<and> length (cleanTitle title) = 153)
   \<and> (length title \<le> 150 \<longrightarrow> cleanTitle title = title)"
  by (simp add: cleanTitle_def js_def)

theorem cleanTitle_truncation_witness:
  "150 < length (replicate 151 (97 :: 16 word))
   \<and> cleanTitle (replicate 151 97) = replicate 150 97 @ js ''...''
   \<and> length (js ''Big Story'') \<le> 150
   \<and> cleanTitle (js ''Big Story'') = js ''Big Story''"
  using cleanTitle_truncation [of "replicate 151 97"] cleanTitle_truncation [of "js ''Big Story''"]
  by (simp add: js_def)

text \<open>
  Claim C1, as amended. Every line of the title wrap and of the author wrap is strictly
  shorter than the budget of its wrap, or it is a single word of the input (a piece
  between two spaces, with no space in it) whose length is at least the budget. The
  claim as worded excepts only words longer than the budget; a word of exactly the
  budget's length also gets a line of its own, which is not strictly shorter than the
  budget (see the counterexample).
\<close>

theorem wrap_line_budget:
  "(\<forall>l \<in> set (titleLines ct).
      length l < maxCharsPerLine (titleTier ct)
      \<or> (l \<in> set (split_on space ct) \<and> space \<notin> set l
          \<and> maxCharsPerLine (titleTier ct) \<le> length l))
   \<and> (\<forall>l \<in> set (authorLines ca).
      length l < maxAuthorCharsPerLine
      \<or> (l \<in> set (split_on space ca) \<and> space \<notin> set l \<and> maxAuthorCharsPerLine \<le> length l))"
  using wordWrap_budget [of "maxCharsPerLine (titleTier ct)" _ ct] titleTier_pos [of ct]
    wordWrap_budget [of maxAuthorCharsPerLine _ ca]
  by (auto simp: titleLines_def authorLines_def maxAuthorCharsPerLine_def)

theorem wrap_line_budget_witness:
  "js ''abcdefghijklmnopqrstuvwxyzabcd'' \<in> set (titleLines (js ''abcdefghijklmnopqrstuvwxyzabcd''))
   \<and> \<not> length (js ''abcdefghijklmnopqrstuvwxyzabcd'')
         < maxCharsPerLine (titleTier (js ''abcdefghijklmnopqrstuvwxyzabcd''))
   \<and> space \<notin> set (js ''abcdefghijklmnopqrstuvwxyzabcd'')
   \<and> js ''JANE'' \<in> set (authorLines (js ''JANE''))
   \<and> length (js ''JANE'') < maxAuthorCharsPerLine"
proof -
  have m1: "js ''abcdefghijklmnopqrstuvwxyzabcd'' \<in> set (titleLines (js ''abcdefghijklmnopqrstuvwxyzabcd''))"
    by (simp add: titleLines_def titleTier_def wordWrap_def wrapStep_def js_def space_def)
  have m2: "js ''JANE'' \<in> set (authorLines (js ''JANE''))"
    by (simp add: authorLines_def wordWrap_def wrapStep_def js_def space_def)
  have n1: "\<not> length (js ''abcdefghijklmnopqrstuvwxyzabcd'')
         < maxCharsPerLine (titleTier (js ''abcdefghijklmnopqrstuvwxyzabcd''))"
    by (simp add: titleTier_def js_def)
  have a: "length (js ''JANE'') < maxAuthorCharsPerLine"
    by (simp add: maxAuthorCharsPerLine_def js_def)
  from wrap_line_budget [of "js ''abcdefghijklmnopqrstuvwxyzabcd''" "js ''JANE''"] m1 m2 n1 a
  show ?thesis by blast
qed

theorem wrap_line_budget_counterexample:
  "js ''abcdefghijklmnopqrstuvwxy'' \<in> set (titleLines (js ''abcdefghijklmnopqrstuvwxy''))
   \<and> \<not> length (js ''abcdefghijklmnopqrstuvwxy'')
         < maxCharsPerLine (titleTier (js ''abcdefghijklmnopqrstuvwxy''))
   \<and> \<not> maxCharsPerLine (titleTier (js ''abcdefghijklmnopqrstuvwxy''))
         < length (js ''abcdefghijklmnopqrstuvwxy'')"
  by (simp add: titleLines_def titleTier_def wordWrap_def wrapStep_def js_def space_def)

text \<open>
  Claim C10, as amended. The wrap always returns at least two lines and the first is
  the empty seed; so the line count is at least one more than the number of lines with
  text, and exactly one more when the input has no empty word (no leading, trailing or
  doubled space). The title block height is computed from that count, so it always
  holds at least one full line height besides the first baseline; and in both renderers
  line \<open>k\<close> of the wrap, the empty line 0 included, is drawn at
  \<open>titleStartY + k * lineHeight\<close>, so the first baseline goes to the empty line.
\<close>

theorem wrap_seed_line:
  "hd (wordWrap m s) = [] \<and> 2 \<le> length (wordWrap m s)
   \<and> 1 + textLineCount (wordWrap m s) \<le> length (wordWrap m s)
   \<and> ([] \<notin> set (split_on space s) \<longrightarrow>
        length (wordWrap m s) = 1 + textLineCount (wordWrap m s))
   \<and> of_nat (lineHeight (titleTier ct)) + of_nat (titleFontSize (titleTier ct)) * (85 / 100)
       \<le> titleBlockHeight (titleTier ct) (length (titleLines ct))
   \<and> titleLines ct ! 0 = []
   \<and> (k < length (titleLines ct) \<longrightarrow>
        tp_text (tb_titlePaths (panel (renderCard (layoutOf ct ca ia idt cd cs) w h)) ! k)
          = titleLines ct ! k
        \<and> tp_y (tb_titlePaths (panel (renderCard (layoutOf ct ca ia idt cd cs) w h)) ! k)
          = titleStartY (titleTier ct) + of_nat k * of_nat (lineHeight (titleTier ct))
        \<and> tp_text (tb_titlePaths (panel (renderCardInline (layoutOf ct ca ia idt cd cs) w h)) ! k)
          = titleLines ct ! k
        \<and> tp_y (tb_titlePaths (panel (renderCardInline (layoutOf ct ca ia idt cd cs) w h)) ! k)
          = titleStartY (titleTier ct) + of_nat k * of_nat (lineHeight (titleTier ct)))"
proof -
  have hdl: "hd (wordWrap m s) = []" and len: "2 \<le> length (wordWrap m s)"
    using wordWrap_hd [of m s] by simp_all
  then have ne: "wordWrap m s \<noteq> []" by auto
  have cnt: "textLineCount (wordWrap m s) = textLineCount (tl (wordWrap m s))"
    using textLineCount_seed hdl ne by simp
  have "textLineCount (tl (wordWrap m s)) \<le> length (tl (wordWrap m s))"
    by (rule textLineCount_le)
  with cnt ne have ge: "1 + textLineCount (wordWrap m s) \<le> length (wordWrap m s)"
    by (cases "wordWrap m s") auto
  have eq: "length (wordWrap m s) = 1 + textLineCount (wordWrap m s)"
    if "[] \<notin> set (split_on space s)"
  proof -
    have "textLineCount (tl (wordWrap m s)) = length (tl (wordWrap m s))"
      using wordWrap_tl [OF that, of m] by (rule textLineCount_all)
    with cnt ne show ?thesis by (cases "wordWrap m s") auto
  qed
  have tne: "titleLines ct \<noteq> []" and thd: "hd (titleLines ct) = []"
    using wordWrap_hd [of "maxCharsPerLine (titleTier ct)" ct] by (auto simp: titleLines_def)
  then have first: "titleLines ct ! 0 = []" by (simp add: hd_conv_nth)
  have lines: "tp_text (tb_titlePaths (panel (renderCard (layoutOf ct ca ia idt cd cs) w h)) ! k)
          = titleLines ct ! k
        \<and> tp_y (tb_titlePaths (panel (renderCard (layoutOf ct ca ia idt cd cs) w h)) ! k)
          = titleStartY (titleTier ct) + of_nat k * of_nat (lineHeight (titleTier ct))
        \<and> tp_text (tb_titlePaths (panel (renderCardInline (layoutOf ct ca ia idt cd cs) w h)) ! k)
          = titleLines ct ! k
        \<and> tp_y (tb_titlePaths (panel (renderCardInline (layoutOf ct ca ia idt cd cs) w h)) ! k)
          = titleStartY (titleTier ct) + of_nat k * of_nat (lineHeight (titleTier ct))"
    if "k < length (titleLines ct)"
    using title_baselines [OF that, of ca ia idt cd cs w h] by simp
  from hdl len ge eq titleBlockHeight_inflated [of ct] first lines show ?thesis by blast
qed

theorem wrap_seed_line_witness:
  "[] \<notin> set (split_on space (js ''Big Story''))
   \<and> wordWrap 25 (js ''Big Story'') = [[], js ''Big Story'']
   \<and> length (wordWrap 25 (js ''Big Story'')) = 1 + textLineCount (wordWrap 25 (js ''Big Story''))"
proof -
  have a: "[] \<notin> set (split_on space (js ''Big Story''))"
    by (simp add: js_def space_def)
  have b: "wordWrap 25 (js ''Big Story'') = [[], js ''Big Story'']"
    by (simp add: wordWrap_def wrapStep_def js_def space_def)
  from wrap_seed_line [of 25 "js ''Big Story''"] a b show ?thesis by blast
qed

theorem wrap_seed_line_counterexample:
  "length (titleLines (js '' Big Story''))
   \<noteq> 1 + textLineCount (titleLines (js '' Big Story''))"
  by (simp add: titleLines_def titleTier_def wordWrap_def wrapStep_def js_def space_def
      textLineCount_def)

text \<open>
  Claim C4. For every title line count, font tier, author line count and pair of flags,
  the text-box height of the handler is the specification's
  \<open>round(20 + ((titleLineCount - 1) * lineHeight + 0.85 * fontSize) + 12 + 2
  + (metadataBlockHeight > 0 ? 15 + metadataBlockHeight : 0) + 20)\<close>, where the metadata
  block height is \<open>authorLineCount * 18\<close> when the author is included plus 18 when the
  date is; with both flags off the metadata block and its spacing contribute 0, and
  neither renderer (the outline renderer, the inline SVG of route.ts) draws any metadata
  text.
\<close>

theorem textHeight_formula:
  "textHeight t n a ia idt
     = specTextBoxHeight n (lineHeight t) (titleFontSize t) a ia idt
   \<and> metadataBlockHeight ia idt a
     = (if ia then of_nat a * 18 else 0) + (if idt then 18 else 0)
   \<and> (\<not> ia \<and> \<not> idt \<longrightarrow>
        metadataBlockHeight ia idt a = 0
        \<and> textHeight t n a ia idt
            = round (20 + ((of_nat n - 1) * of_nat (lineHeight t)
                           + (85 / 100) * of_nat (titleFontSize t)) + 12 + 2 + 0 + 20 :: rat))
   \<and> (\<not> in_includeAuthor i \<and> \<not> in_includeDate i \<longrightarrow>
        tb_metadataPaths (panel (renderCard i w h)) = []
        \<and> tb_metadataPaths (panel (renderCardInline i w h)) = [])"
proof -
  have a: "textHeight t n a ia idt = specTextBoxHeight n (lineHeight t) (titleFontSize t) a ia idt"
    by (simp add: textHeight_def specTextBoxHeight_def metadataBlockHeight_spec Let_def
        titleBlockHeight_def topPadding_def separatorSpacing_def separatorHeight_def
        metadataSpacing_def bottomPadding_def mult.commute)
  have b: "metadataBlockHeight ia idt a
     = (if ia then of_nat a * 18 else 0) + (if idt then 18 else 0)"
    by (simp add: metadataBlockHeight_spec specMetadataBlockHeight_def)
  have c: "textHeight t n a ia idt
            = round (20 + ((of_nat n - 1) * of_nat (lineHeight t)
                           + (85 / 100) * of_nat (titleFontSize t)) + 12 + 2 + 0 + 20 :: rat)"
    if "\<not> ia \<and> \<not> idt"
    using that unfolding a by (simp add: specTextBoxHeight_def specMetadataBlockHeight_def)
  have d: "metadataBlockHeight ia idt a = 0" if "\<not> ia \<and> \<not> idt"
    using that by (simp add: metadataBlockHeight_def)
  from a b c d no_metadata_paths [of i w h] show ?thesis by blast
qed

theorem textHeight_formula_witness:
  "textHeight \<lparr>titleFontSize = 48, lineHeight = 58, maxCharsPerLine = 25\<rparr> 2 2 False False = 153
   \<and> textHeight \<lparr>titleFontSize = 48, lineHeight = 58, maxCharsPerLine = 25\<rparr> 2 2 True True = 222
   \<and> tb_metadataPaths (panel (renderCard
        (layoutOf (js ''Big Story'') (js ''JANE DOE'') False False (js ''JANUARY 5, 2024'')
           (js ''DAILY NEWS'')) (Some 1200) (Some 600))) = []"
proof -
  have f: "\<not> in_includeAuthor (layoutOf (js ''Big Story'') (js ''JANE DOE'') False False
      (js ''JANUARY 5, 2024'') (js ''DAILY NEWS''))
    \<and> \<not> in_includeDate (layoutOf (js ''Big Story'') (js ''JANE DOE'') False False
      (js ''JANUARY 5, 2024'') (js ''DAILY NEWS''))"
    by (simp add: layoutOf_def)
  have r1: "round (20 + ((of_nat 2 - 1) * of_nat 58 + (85 / 100) * of_nat 48) + 12 + 2 + 0 + 20 :: rat) = 153"
    by (simp add: round_def floor_eq_iff)
  have r2: "specTextBoxHeight 2 58 48 2 True True = 222"
    by (simp add: specTextBoxHeight_def specMetadataBlockHeight_def round_def floor_eq_iff)
  from textHeight_formula [of "\<lparr>titleFontSize = 48, lineHeight = 58, maxCharsPerLine = 25\<rparr>" 2 2
      False False "layoutOf (js ''Big Story'') (js ''JANE DOE'') False False
      (js ''JANUARY 5, 2024'') (js ''DAILY NEWS'')" "Some 1200" "Some 600"]
    textHeight_formula [of "\<lparr>titleFontSize = 48, lineHeight = 58, maxCharsPerLine = 25\<rparr>" 2 2
      True True]
    f r1 r2
  show ?thesis by simp
qed



text \<open>
  Claim C2. The resolver is the run of its tiers in cascade order: one tier per JSON-LD
  script, then the meta-tag tiers of author, date and source, the host-name fallback
  and the author default. Whenever author, source or date is non-empty (truthy) after
  the first \<open>k\<close> tiers, for any \<open>k\<close>, the resolved value of that field is the value
  it has there: no later script and no later fallback changes it, so the resolved value
  is the one written by the first tier that yields a non-empty value. The same holds
  object by object inside one script.
\<close>

theorem first_writer_wins:
  "resolveFields d h = runTiers (tiers d h)
   \<and> (truthy (author s) \<longrightarrow> author (scanData s ds) = author s)
   \<and> (truthy (source s) \<longrightarrow> source (scanData s ds) = source s)
   \<and> (truthy (date s) \<longrightarrow> date (scanData s ds) = date s)
   \<and> (truthy (author (runTiers (take k (tiers d h)))) \<longrightarrow>
        author (resolveFields d h) = author (runTiers (take k (tiers d h))))
   \<and> (truthy (source (runTiers (take k (tiers d h)))) \<longrightarrow>
        source (resolveFields d h) = source (runTiers (take k (tiers d h))))
   \<and> (truthy (date (runTiers (take k (tiers d h)))) \<longrightarrow>
        date (resolveFields d h) = date (runTiers (take k (tiers d h))))"
  using runTiers_take_keeps [of "tiers d h" author k]
    runTiers_take_keeps [of "tiers d h" source k]
    runTiers_take_keeps [of "tiers d h" date k]
    tiers_keep [of _ d h] resolveFields_tiers [of d h] scanData_keeps [of s ds]
  by auto

theorem first_writer_wins_witness:
  "runTiers (take 1 (tiers
      (emptyDocument\<lparr>jsonLdScripts :=
          [Some (JObj [(js ''author'', JObj [(js ''name'', JStr (js ''Jane Doe''))]),
                       (js ''publisher'', JStr (js ''Daily News'')),
                       (js ''datePublished'', JStr (js ''2024-01-05''))]),
           Some (JObj [(js ''author'', JStr (js ''Someone Else''))])],
        meta_author := Some (js ''Other''),
        og_site_name := Some (js ''Other Site'')\<rparr>) None))
   = \<lparr>author = JStr (js ''Jane Doe''), source = JStr (js ''Daily News''),
      date = JStr (js ''2024-01-05'')\<rparr>
   \<and> resolveFields
      (emptyDocument\<lparr>jsonLdScripts :=
          [Some (JObj [(js ''author'', JObj [(js ''name'', JStr (js ''Jane Doe''))]),
                       (js ''publisher'', JStr (js ''Daily News'')),
                       (js ''datePublished'', JStr (js ''2024-01-05''))]),
           Some (JObj [(js ''author'', JStr (js ''Someone Else''))])],
        meta_author := Some (js ''Other''),
        og_site_name := Some (js ''Other Site'')\<rparr>) None
   = \<lparr>author = JStr (js ''Jane Doe''), source = JStr (js ''Daily News''),
      date = JStr (js ''2024-01-05'')\<rparr>
   \<and> scanData \<lparr>author = JStr (js ''Jane Doe''), source = JStr (js ''Daily News''),
        date = JStr (js ''2024-01-05'')\<rparr> [JObj [(js ''author'', JStr (js ''Someone Else''))]]
   = \<lparr>author = JStr (js ''Jane Doe''), source = JStr (js ''Daily News''),
      date = JStr (js ''2024-01-05'')\<rparr>"
proof -
  let ?d = "emptyDocument\<lparr>jsonLdScripts :=
          [Some (JObj [(js ''author'', JObj [(js ''name'', JStr (js ''Jane Doe''))]),
                       (js ''publisher'', JStr (js ''Daily News'')),
                       (js ''datePublished'', JStr (js ''2024-01-05''))]),
           Some (JObj [(js ''author'', JStr (js ''Someone Else''))])],
        meta_author := Some (js ''Other''),
        og_site_name := Some (js ''Other Site'')\<rparr>"
  let ?s = "\<lparr>author = JStr (js ''Jane Doe''), source = JStr (js ''Daily News''),
      date = JStr (js ''2024-01-05'')\<rparr>"
  have a: "runTiers (take 1 (tiers ?d None)) = ?s"
    by (simp add: tiers_def runTiers_def emptyDocument_def scanScript_def processData_def
        andThen_def authorStep_def publisherStep_def dateStep_def nameOf_def initialFields_def
        js_def)
  have t: "truthy (author ?s)" "truthy (source ?s)" "truthy (date ?s)"
    by (simp_all add: js_def)
  from first_writer_wins [of ?d None ?s "[JObj [(js ''author'', JStr (js ''Someone Else''))]]" 1]
  have "author (resolveFields ?d None) = author ?s \<and> source (resolveFields ?d None) = source ?s
      \<and> date (resolveFields ?d None) = date ?s
      \<and> author (scanData ?s [JObj [(js ''author'', JStr (js ''Someone Else''))]]) = author ?s
      \<and> source (scanData ?s [JObj [(js ''author'', JStr (js ''Someone Else''))]]) = source ?s
      \<and> date (scanData ?s [JObj [(js ''author'', JStr (js ''Someone Else''))]]) = date ?s"
    unfolding a using t by blast
  then have "resolveFields ?d None = ?s
      \<and> scanData ?s [JObj [(js ''author'', JStr (js ''Someone Else''))]] = ?s"
    by (simp add: fields.equality)
  with a show ?thesis by blast
qed

text \<open>
  Claim C8, as amended. When the author is still empty after the JSON-LD scan, the
  \<open>author\<close> meta tag and the two author selectors yield nothing, and the content of
  \<open>article:author\<close> is a comma-separated list of profile URLs (each a URL with something
  after its first \<open>profile/\<close>, white space allowed around it), the resolved author is
  the list of what follows the first \<open>profile/\<close> of each URL, with dashes replaced by
  spaces and the first letter of each word in upper case (the other letters as they
  are), joined by a comma and a space. This is the last path segment of each URL when
  no \<open>/\<close> follows its \<open>profile/\<close>, as in the specification's scenario D; the claim as
  worded takes the last path segment of every URL, which fails when more than one
  segment follows \<open>profile/\<close> (see the counterexample).
\<close>

theorem profile_author_heuristic:
  assumes "\<not> truthy (author (scanScripts initialFields (jsonLdScripts d)))"
    and "\<not> truthyStr (meta_author d)"
    and "trim (rel_author_text d) = []"
    and "trim (class_author_text d) = []"
    and "es \<noteq> []"
    and "\<forall>e \<in> set es. isProfileEntry e"
    and "article_author d = Some (join [0x2C] (map entryText es))"
  shows "author (resolveFields d h)
      = JStr (join (js '', '') (map (\<lambda>e. specCapitalize (dashesToSpaces (afterProfile e))) es))
    \<and> ((\<forall>e \<in> set es. 0x2F \<notin> set (afterProfile e)) \<longrightarrow>
        author (resolveFields d h)
        = JStr (specProfileAuthor (join [0x2C] (map entryText es))))"
proof -
  obtain v vs where es: "es = v # vs" using assms(5) by (cases es) auto
  let ?s = "scanScripts initialFields (jsonLdScripts d)"
  have a: "author (authorMeta d ?s)
      = JStr (join (js '', '') (map (\<lambda>e. specCapitalize (dashesToSpaces (afterProfile e))) es))"
    using authorMeta_profile [OF assms(1-4) assms(7) includesStr_entries [OF assms(5)]]
      profileNames_entries [OF assms(5,6)]
    by simp
  have "specCapitalize (dashesToSpaces (afterProfile v)) \<noteq> []"
    using assms(6) capitalize_not_Nil es by (auto simp: isProfileEntry_def)
  then have "truthy (author (authorMeta d ?s))"
    unfolding a es by (simp add: join_not_Nil)
  from later_tiers_author [OF this, of h d] a
  have r: "author (resolveFields d h)
      = JStr (join (js '', '') (map (\<lambda>e. specCapitalize (dashesToSpaces (afterProfile e))) es))"
    by (simp add: resolveFields_def)
  then show ?thesis
    using specProfileAuthor_entries [OF assms(5,6)] by simp
qed

theorem profile_author_heuristic_witness:
  "author (resolveFields
      (emptyDocument\<lparr>article_author :=
         Some (js ''https://site.com/profile/john-smith, https://site.com/profile/jane-doe'')\<rparr>)
      None)
   = JStr (js ''John Smith, Jane Doe'')
   \<and> specProfileAuthor
       (js ''https://site.com/profile/john-smith, https://site.com/profile/jane-doe'')
     = js ''John Smith, Jane Doe''
   \<and> author (resolveFields
      (emptyDocument\<lparr>article_author :=
         Some (js ''https://site.com/profile/team/jane-doe ,https://site.com/profile/JOHN-smith/'')\<rparr>)
      None)
   = JStr (js ''Team/Jane Doe, JOHN Smith/'')"
proof -
  let ?d = "emptyDocument\<lparr>article_author :=
         Some (js ''https://site.com/profile/john-smith, https://site.com/profile/jane-doe'')\<rparr>"
  let ?es = "[\<lparr>padBefore = [], beforeProfile = js ''https://site.com/'',
                afterProfile = js ''john-smith'', padAfter = []\<rparr>,
              \<lparr>padBefore = [space], beforeProfile = js ''https://site.com/'',
                afterProfile = js ''jane-doe'', padAfter = []\<rparr>]"
  let ?d' = "emptyDocument\<lparr>article_author :=
         Some (js ''https://site.com/profile/team/jane-doe ,https://site.com/profile/JOHN-smith/'')\<rparr>"
  let ?es' = "[\<lparr>padBefore = [], beforeProfile = js ''https://site.com/'',
                afterProfile = js ''team/jane-doe'', padAfter = [space]\<rparr>,
              \<lparr>padBefore = [], beforeProfile = js ''https://site.com/'',
                afterProfile = js ''JOHN-smith/'', padAfter = []\<rparr>]"
  have h1: "\<not> truthy (author (scanScripts initialFields (jsonLdScripts ?d)))"
    "\<not> truthy (author (scanScripts initialFields (jsonLdScripts ?d')))"
    by (simp_all add: emptyDocument_def scanScripts_def initialFields_def)
  have h2: "\<not> truthyStr (meta_author ?d)" "\<not> truthyStr (meta_author ?d')"
    and h3: "trim (rel_author_text ?d) = []" "trim (rel_author_text ?d') = []"
    and h4: "trim (class_author_text ?d) = []" "trim (class_author_text ?d') = []"
    by (simp_all add: emptyDocument_def truthyStr_def trim_def)
  have h5: "?es \<noteq> []" "?es' \<noteq> []" by simp_all
  have h6: "\<forall>e \<in> set ?es. isProfileEntry e" "\<forall>e \<in> set ?es'. isProfileEntry e"
    by (simp_all add: isProfileEntry_def entryUrl_def js_def space_def isWhiteSpace_def
        isLineTerminator_def startsWith_def)
  have h7: "article_author ?d = Some (join [0x2C] (map entryText ?es))"
    "article_author ?d' = Some (join [0x2C] (map entryText ?es'))"
    by (simp_all add: emptyDocument_def entryText_def entryUrl_def js_def space_def)
  have h8: "\<forall>e \<in> set ?es. 0x2F \<notin> set (afterProfile e)"
    by (simp add: js_def)
  have r: "join (js '', '') (map (\<lambda>e. specCapitalize (dashesToSpaces (afterProfile e))) ?es)
      = js ''John Smith, Jane Doe''"
    "join (js '', '') (map (\<lambda>e. specCapitalize (dashesToSpaces (afterProfile e))) ?es')
      = js ''Team/Jane Doe, JOHN Smith/''"
    by (simp_all add: capitalize_spec [symmetric] capitalizeWords_def dashesToSpaces_def
        isWordChar_def upperWordChar_def js_def)
  have c: "join [0x2C] (map entryText ?es)
      = js ''https://site.com/profile/john-smith, https://site.com/profile/jane-doe''"
    by (simp add: entryText_def entryUrl_def js_def space_def)
  from profile_author_heuristic [OF h1(1) h2(1) h3(1) h4(1) h5(1) h6(1) h7(1), of None] h8
  have "author (resolveFields ?d None)
      = JStr (join (js '', '') (map (\<lambda>e. specCapitalize (dashesToSpaces (afterProfile e))) ?es))"
    and "author (resolveFields ?d None) = JStr (specProfileAuthor (join [0x2C] (map entryText ?es)))"
    by blast+
  then have p1: "author (resolveFields ?d None) = JStr (js ''John Smith, Jane Doe'')"
    and p2: "JStr (js ''John Smith, Jane Doe'')
      = JStr (specProfileAuthor
          (js ''https://site.com/profile/john-smith, https://site.com/profile/jane-doe''))"
    unfolding r(1) c by simp_all
  from profile_author_heuristic [OF h1(2) h2(2) h3(2) h4(2) h5(2) h6(2) h7(2), of None]
  have "author (resolveFields ?d' None)
      = JStr (join (js '', '') (map (\<lambda>e. specCapitalize (dashesToSpaces (afterProfile e))) ?es'))"
    by blast
  then have p3: "author (resolveFields ?d' None) = JStr (js ''Team/Jane Doe, JOHN Smith/'')"
    unfolding r(2) .
  from p2 have "specProfileAuthor
       (js ''https://site.com/profile/john-smith, https://site.com/profile/jane-doe'')
     = js ''John Smith, Jane Doe''"
    by (simp only: jsval.inject)
  with p1 p3 show ?thesis by blast
qed

theorem profile_author_heuristic_counterexample:
  "author (resolveFields
      (emptyDocument\<lparr>article_author := Some (js ''https://site.com/profile/team/jane-doe'')\<rparr>)
      None)
   = JStr (js ''Team/Jane Doe'')
   \<and> specProfileAuthor (js ''https://site.com/profile/team/jane-doe'') = js ''Jane Doe''
   \<and> author (resolveFields
      (emptyDocument\<lparr>article_author := Some (js ''https://site.com/profile/team/jane-doe'')\<rparr>)
      None)
   \<noteq> JStr (specProfileAuthor (js ''https://site.com/profile/team/jane-doe''))"
proof -
  have a: "author (resolveFields
      (emptyDocument\<lparr>article_author := Some (js ''https://site.com/profile/team/jane-doe'')\<rparr>)
      None)
   = JStr (js ''Team/Jane Doe'')"
    by (simp add: resolveFields_def scanScripts_def emptyDocument_def initialFields_def
        authorMeta_def dateMeta_def sourceMeta_def sourceFallback_def authorFallback_def
        orStr_def trim_def profileNames_def profileName_def capitalizeWords_def
        dashesToSpaces_def isWordChar_def upperWordChar_def startsWith_def isWhiteSpace_def
        isLineTerminator_def js_def)
  have b: "specProfileAuthor (js ''https://site.com/profile/team/jane-doe'') = js ''Jane Doe''"
    by (simp add: specProfileAuthor_def lastSegment_def trim_def capitalize_spec [symmetric]
        capitalizeWords_def dashesToSpaces_def isWordChar_def upperWordChar_def isWhiteSpace_def
        isLineTerminator_def js_def)
  show ?thesis unfolding a b by (simp add: js_def)
qed

text \<open>
  Claim C3, as amended. When the raw date is not empty and the runtime reads it as a
  calendar date, the formatted date is \<open>Month Day, Year\<close> with the long month name.
  When the raw date is empty, or when building the date throws, the formatted date is
  the current date as \<open>Mon-DD-YYYY\<close>: the short month name, the day on two digits and
  the year, joined by dashes. (The claim as worded gives the current date the long form;
  what the handler returns for a date that does not parse is left out here.)
\<close>

theorem date_format:
  "(truthy v \<and> parse v = ValidDate d \<longrightarrow>
      formatDate parse now v
      = monthLong (cd_month d) @ js '' '' @ showNat (cd_day d) @ js '', '' @ showNat (cd_year d))
   \<and> (\<not> truthy v \<or> parse v = DateThrows \<longrightarrow>
      formatDate parse now v
      = monthShort (cd_month now) @ js ''-'' @ twoDigits (cd_day now) @ js ''-''
        @ showNat (cd_year now))"
  by (auto simp: formatDate_def longDate_def dashed_shortDate)

theorem date_format_witness:
  "formatDate scenarioDates \<lparr>cd_year = 2026, cd_month = November, cd_day = 2\<rparr>
     (JStr (js ''2024-01-05'')) = js ''January 5, 2024''
   \<and> formatDate scenarioDates \<lparr>cd_year = 2026, cd_month = November, cd_day = 2\<rparr> (JStr [])
     = js ''Nov-02-2026''"
proof -
  have a: "truthy (JStr (js ''2024-01-05''))
      \<and> scenarioDates (JStr (js ''2024-01-05''))
        = ValidDate \<lparr>cd_year = 2024, cd_month = January, cd_day = 5\<rparr>"
    by (simp add: scenarioDates_def js_def)
  have b: "\<not> truthy (JStr [])" by simp
  have c: "monthLong January @ js '' '' @ showNat 5 @ js '', '' @ showNat 2024 = js ''January 5, 2024''"
    by (simp add: showNat.simps js_def)
  have d: "monthShort November @ js ''-'' @ twoDigits 2 @ js ''-'' @ showNat 2026 = js ''Nov-02-2026''"
    by (simp add: showNat.simps js_def monthShort_def twoDigits_def)
  from date_format [of "JStr (js ''2024-01-05'')" scenarioDates
      "\<lparr>cd_year = 2024, cd_month = January, cd_day = 5\<rparr>"
      "\<lparr>cd_year = 2026, cd_month = November, cd_day = 2\<rparr>"]
    date_format [of "JStr []" scenarioDates _
      "\<lparr>cd_year = 2026, cd_month = November, cd_day = 2\<rparr>"]
    a b c d
  show ?thesis by simp
qed

theorem date_format_counterexample:
  "formatDate noDates \<lparr>cd_year = 2026, cd_month = November, cd_day = 2\<rparr> (JStr [])
     = js ''Nov-02-2026''
   \<and> longDate \<lparr>cd_year = 2026, cd_month = November, cd_day = 2\<rparr> = js ''November 2, 2026''
   \<and> formatDate noDates \<lparr>cd_year = 2026, cd_month = November, cd_day = 2\<rparr> (JStr [])
     \<noteq> longDate \<lparr>cd_year = 2026, cd_month = November, cd_day = 2\<rparr>"
  by (simp add: formatDate_def shortDate_def longDate_def dashed_def monthShort_def twoDigits_def
      showNat.simps js_def)

text \<open>
  Claim C7. The retry loop fetches the page at most three times. An attempt that gets
  a 2xx or a 4xx response ends the loop at once with that response. A response of 500
  or more with attempts remaining (attempt 0 or 1) is followed by a sleep of
  \<open>2 ^ attempt\<close> seconds and the next attempt, and so is a rejected fetch. When all
  three fetches of a valid request are rejected, the answer is status 500 with the
  message \<open>Failed to fetch article: \<close> followed by the message of the last error, after
  sleeps of one and two seconds.
\<close>

theorem retry_policy:
  "pageFetches (trace (retryLoop fetch 0 initialLoop)) \<le> 3
   \<and> (attempt < 3 \<and> fetch attempt = Responded r
        \<and> (ok r \<or> (400 \<le> status r \<and> status r < 500)) \<longrightarrow>
      retryLoop fetch attempt st
      = st\<lparr>htmlResponse := Some r, trace := trace st @ [FetchPage attempt]\<rparr>)
   \<and> (attempt < 2 \<and> fetch attempt = Responded r \<and> 500 \<le> status r \<longrightarrow>
      retryLoop fetch attempt st
      = retryLoop fetch (attempt + 1)
          (st\<lparr>htmlResponse := Some r,
              trace := trace st @ [FetchPage attempt, Sleep (2 ^ attempt * 1000)]\<rparr>))
   \<and> (attempt < 2 \<and> fetch attempt = Rejected err \<longrightarrow>
      retryLoop fetch attempt st
      = retryLoop fetch (attempt + 1)
          (st\<lparr>lastError := Some err,
              trace := trace st @ [FetchPage attempt, Sleep (2 ^ attempt * 1000)]\<rparr>))
   \<and> (getProp b (js ''url'') = Some (JStr url) \<and> url \<noteq> [] \<and> hostnameOf e url = Some h
        \<and> fetchPage e 0 = Rejected e0 \<and> fetchPage e 1 = Rejected e1
        \<and> fetchPage e 2 = Rejected (ErrorObject reason) \<longrightarrow>
      POST e (Some b)
      = (ErrorResponse 500 (js ''Failed to fetch article: '' @ reason),
         [FetchPage 0, Sleep 1000, FetchPage 1, Sleep 2000, FetchPage 2]))"
proof -
  have p1: "pageFetches (trace (retryLoop fetch 0 initialLoop)) \<le> 3"
    using retryLoop_fetches [of fetch 0 initialLoop]
    by (simp add: initialLoop_def pageFetches_def maxRetries_def)
  have p2: "retryLoop fetch attempt st
      = st\<lparr>htmlResponse := Some r, trace := trace st @ [FetchPage attempt]\<rparr>"
    if "attempt < 3 \<and> fetch attempt = Responded r
        \<and> (ok r \<or> (400 \<le> status r \<and> status r < 500))"
    using that retryLoop_stop [of attempt fetch r st] by (simp add: maxRetries_def)
  have p3: "retryLoop fetch attempt st
      = retryLoop fetch (attempt + 1)
          (st\<lparr>htmlResponse := Some r,
              trace := trace st @ [FetchPage attempt, Sleep (2 ^ attempt * 1000)]\<rparr>)"
    if "attempt < 2 \<and> fetch attempt = Responded r \<and> 500 \<le> status r"
    using that retryLoop_server_error [of attempt fetch r st] by (simp add: maxRetries_def)
  have p4: "retryLoop fetch attempt st
      = retryLoop fetch (attempt + 1)
          (st\<lparr>lastError := Some err,
              trace := trace st @ [FetchPage attempt, Sleep (2 ^ attempt * 1000)]\<rparr>)"
    if "attempt < 2 \<and> fetch attempt = Rejected err"
    using that retryLoop_rejected [of attempt fetch err st] by (simp add: maxRetries_def)
  have p5: "POST e (Some b)
      = (ErrorResponse 500 (js ''Failed to fetch article: '' @ reason),
         [FetchPage 0, Sleep 1000, FetchPage 1, Sleep 2000, FetchPage 2])"
    if "getProp b (js ''url'') = Some (JStr url) \<and> url \<noteq> [] \<and> hostnameOf e url = Some h
        \<and> fetchPage e 0 = Rejected e0 \<and> fetchPage e 1 = Rejected e1
        \<and> fetchPage e 2 = Rejected (ErrorObject reason)"
    using that all_rejected [of "fetchPage e" e0 e1 "ErrorObject reason"]
    by (simp add: POST_def afterFetch_def failureReason_def)
  from p1 p2 p3 p4 p5 show ?thesis by blast
qed

theorem retry_policy_witness:
  "POST (constantEnv (Rejected (ErrorObject (js ''fetch failed''))) ImageFailed)
     (Some (JObj [(js ''url'', JStr (js ''https://site.com/a''))]))
   = (ErrorResponse 500 (js ''Failed to fetch article: fetch failed''),
      [FetchPage 0, Sleep 1000, FetchPage 1, Sleep 2000, FetchPage 2])
   \<and> retryLoop (fetchPage (constantEnv
        (Responded \<lparr>status = 404, statusText = js ''Not Found'', pageBody = None\<rparr>) ImageFailed))
        0 initialLoop
     = \<lparr>htmlResponse = Some \<lparr>status = 404, statusText = js ''Not Found'', pageBody = None\<rparr>,
        lastError = None, trace = [FetchPage 0]\<rparr>
   \<and> retryLoop (fetchPage (constantEnv
        (Responded \<lparr>status = 503, statusText = js ''Unavailable'', pageBody = None\<rparr>) ImageFailed))
        0 initialLoop
     = retryLoop (fetchPage (constantEnv
        (Responded \<lparr>status = 503, statusText = js ''Unavailable'', pageBody = None\<rparr>) ImageFailed))
        1 \<lparr>htmlResponse = Some \<lparr>status = 503, statusText = js ''Unavailable'', pageBody = None\<rparr>,
           lastError = None, trace = [FetchPage 0, Sleep 1000]\<rparr>
   \<and> retryLoop (fetchPage (constantEnv (Rejected NotAnError) ImageFailed)) 1 initialLoop
     = retryLoop (fetchPage (constantEnv (Rejected NotAnError) ImageFailed)) 2
         \<lparr>htmlResponse = None, lastError = Some NotAnError,
          trace = [FetchPage 1, Sleep 2000]\<rparr>"
proof -
  let ?b = "JObj [(js ''url'', JStr (js ''https://site.com/a''))]"
  let ?e = "constantEnv (Rejected (ErrorObject (js ''fetch failed''))) ImageFailed"
  have h: "getProp ?b (js ''url'') = Some (JStr (js ''https://site.com/a''))
      \<and> js ''https://site.com/a'' \<noteq> []
      \<and> hostnameOf ?e (js ''https://site.com/a'') = Some (js ''site.com'')
      \<and> fetchPage ?e 0 = Rejected (ErrorObject (js ''fetch failed''))
      \<and> fetchPage ?e 1 = Rejected (ErrorObject (js ''fetch failed''))
      \<and> fetchPage ?e 2 = Rejected (ErrorObject (js ''fetch failed''))"
    by (simp add: constantEnv_def js_def)
  have a: "POST ?e (Some ?b)
      = (ErrorResponse 500 (js ''Failed to fetch article: '' @ js ''fetch failed''),
         [FetchPage 0, Sleep 1000, FetchPage 1, Sleep 2000, FetchPage 2])"
    using retry_policy [where b = ?b and e = ?e and url = "js ''https://site.com/a''"
        and h = "js ''site.com''" and ?e0.0 = "ErrorObject (js ''fetch failed'')"
        and ?e1.0 = "ErrorObject (js ''fetch failed'')" and reason = "js ''fetch failed''"] h
    by blast
  have b: "retryLoop (fetchPage (constantEnv
        (Responded \<lparr>status = 404, statusText = js ''Not Found'', pageBody = None\<rparr>) ImageFailed))
        0 initialLoop
     = initialLoop\<lparr>htmlResponse := Some \<lparr>status = 404, statusText = js ''Not Found'', pageBody = None\<rparr>,
        trace := trace initialLoop @ [FetchPage 0]\<rparr>"
    using retry_policy [where attempt = 0 and st = initialLoop
        and r = "\<lparr>status = 404, statusText = js ''Not Found'', pageBody = None\<rparr>"
        and fetch = "fetchPage (constantEnv
          (Responded \<lparr>status = 404, statusText = js ''Not Found'', pageBody = None\<rparr>) ImageFailed)"]
    by (simp add: constantEnv_def)
  have c: "retryLoop (fetchPage (constantEnv
        (Responded \<lparr>status = 503, statusText = js ''Unavailable'', pageBody = None\<rparr>) ImageFailed))
        0 initialLoop
     = retryLoop (fetchPage (constantEnv
        (Responded \<lparr>status = 503, statusText = js ''Unavailable'', pageBody = None\<rparr>) ImageFailed))
        (0 + 1)
        (initialLoop\<lparr>htmlResponse := Some \<lparr>status = 503, statusText = js ''Unavailable'', pageBody = None\<rparr>,
           trace := trace initialLoop @ [FetchPage 0, Sleep (2 ^ 0 * 1000)]\<rparr>)"
    using retry_policy [where attempt = 0 and st = initialLoop
        and r = "\<lparr>status = 503, statusText = js ''Unavailable'', pageBody = None\<rparr>"
        and fetch = "fetchPage (constantEnv
          (Responded \<lparr>status = 503, statusText = js ''Unavailable'', pageBody = None\<rparr>) ImageFailed)"]
    by (simp add: constantEnv_def)
  have d: "retryLoop (fetchPage (constantEnv (Rejected NotAnError) ImageFailed)) 1 initialLoop
     = retryLoop (fetchPage (constantEnv (Rejected NotAnError) ImageFailed)) (1 + 1)
         (initialLoop\<lparr>lastError := Some NotAnError,
            trace := trace initialLoop @ [FetchPage 1, Sleep (2 ^ 1 * 1000)]\<rparr>)"
    using retry_policy [where attempt = 1 and st = initialLoop and err = NotAnError
        and fetch = "fetchPage (constantEnv (Rejected NotAnError) ImageFailed)"]
    by (simp add: constantEnv_def)
  show ?thesis
    unfolding a b c d by (simp add: initialLoop_def js_def numeral_2_eq_2)
qed

text \<open>
  Claim C6. For a valid request whose page was fetched with an ok status and parsed:
  when none of \<open>og:image\<close>, \<open>twitter:image\<close> and \<open>og:image:url\<close> has a non-empty
  content, the answer is status 400 with the error
  \<open>No article image found. Please try a different article.\<close>, and no image fetch has
  been made; the answer carries no card. This holds for the handler with the retry
  loop and for the handler of route.ts.
\<close>

theorem no_image_found:
  assumes "getProp b (js ''url'') = Some (JStr url)" and "url \<noteq> []"
    and "hostnameOf e url = Some h"
    and "ok r" and "pageBody r = Some d"
    and "\<not> truthyStr (og_image d)" and "\<not> truthyStr (twitter_image d)"
    and "\<not> truthyStr (og_image_url d)"
  shows "(htmlResponse (retryLoop (fetchPage e) 0 initialLoop) = Some r \<longrightarrow>
      fst (POST e (Some b))
        = ErrorResponse 400 (js ''No article image found. Please try a different article.'')
      \<and> filter isFetchImage (snd (POST e (Some b))) = [])
    \<and> (fetchPage e 0 = Responded r \<longrightarrow>
      POSTroute e (Some b)
        = (ErrorResponse 400 (js ''No article image found. Please try a different article.''),
           [FetchPage 0]))"
proof -
  have img: "extractImageUrl d = []"
    using assms(6-8) by (auto simp: extractImageUrl_def orStr_def truthyStr_def split: option.splits)
  have st: "status r \<noteq> 403" using assms(4) by (simp add: ok_def)
  have tr: "filter isFetchImage (trace (retryLoop (fetchPage e) 0 initialLoop)) = []"
    using retryLoop_no_image [of "fetchPage e" 0 initialLoop] by (simp add: initialLoop_def)
  have "POST e (Some b)
      = (ErrorResponse 400 (js ''No article image found. Please try a different article.''),
         trace (retryLoop (fetchPage e) 0 initialLoop))"
    if "htmlResponse (retryLoop (fetchPage e) 0 initialLoop) = Some r"
    using that assms(1-5) img st
    by (simp add: POST_def afterFetch_def pageStage_def Let_def)
  moreover have "POSTroute e (Some b)
      = (ErrorResponse 400 (js ''No article image found. Please try a different article.''),
         [FetchPage 0])"
    if "fetchPage e 0 = Responded r"
    using that assms(1-5) img
    by (simp add: POSTroute_def pageStage_def Let_def)
  ultimately show ?thesis using tr by simp
qed

theorem no_image_found_witness:
  "fst (POST (constantEnv
        (Responded \<lparr>status = 200, statusText = js ''OK'', pageBody = Some emptyDocument\<rparr>)
        (ImageBytes (Some (Some 1200, Some 600))))
      (Some (JObj [(js ''url'', JStr (js ''https://site.com/a''))])))
   = ErrorResponse 400 (js ''No article image found. Please try a different article.'')
   \<and> filter isFetchImage (snd (POST (constantEnv
        (Responded \<lparr>status = 200, statusText = js ''OK'', pageBody = Some emptyDocument\<rparr>)
        (ImageBytes (Some (Some 1200, Some 600))))
      (Some (JObj [(js ''url'', JStr (js ''https://site.com/a''))])))) = []
   \<and> POSTroute (constantEnv
        (Responded \<lparr>status = 200, statusText = js ''OK'', pageBody = Some emptyDocument\<rparr>)
        (ImageBytes (Some (Some 1200, Some 600))))
      (Some (JObj [(js ''url'', JStr (js ''https://site.com/a''))]))
     = (ErrorResponse 400 (js ''No article image found. Please try a different article.''),
        [FetchPage 0])"
proof -
  let ?r = "\<lparr>status = 200, statusText = js ''OK'', pageBody = Some emptyDocument\<rparr>"
  let ?e = "constantEnv (Responded ?r) (ImageBytes (Some (Some 1200, Some 600)))"
  let ?b = "JObj [(js ''url'', JStr (js ''https://site.com/a''))]"
  have h1: "getProp ?b (js ''url'') = Some (JStr (js ''https://site.com/a''))"
    by (simp add: js_def)
  have h2: "js ''https://site.com/a'' \<noteq> []" by (simp add: js_def)
  have h3: "hostnameOf ?e (js ''https://site.com/a'') = Some (js ''site.com'')"
    by (simp add: constantEnv_def)
  have h4: "htmlResponse (retryLoop (fetchPage ?e) 0 initialLoop) = Some ?r"
    using retryLoop_stop [of 0 "fetchPage ?e" ?r initialLoop]
    by (simp add: constantEnv_def maxRetries_def ok_def)
  have h5: "ok ?r" by (simp add: ok_def)
  have h6: "pageBody ?r = Some emptyDocument" by simp
  have h7: "\<not> truthyStr (og_image emptyDocument)" "\<not> truthyStr (twitter_image emptyDocument)"
    "\<not> truthyStr (og_image_url emptyDocument)"
    by (simp_all add: emptyDocument_def truthyStr_def)
  have h8: "fetchPage ?e 0 = Responded ?r" by (simp add: constantEnv_def)
  from no_image_found [OF h1 h2 h3 h5 h6 h7] h4 h8 show ?thesis by blast
qed

end
